theory Spec2Isabelle
  imports Main
begin

section \<open>Python values shared by the routes and services\<close>

text \<open>
  A Python exception is its class together with its message. \<open>HTTPException\<close> carries its
  status code in the class and its detail as the message; \<open>str(e)\<close> of it is
  \<open>"<status_code>: <detail>"\<close>. For every other class \<open>str(e)\<close> is the message; the message
  of a \<open>KeyError\<close> is the key in quotes.
\<close>

datatype exn_class =
    ValueError | OverflowError | KeyError | TypeError | HttpError | OSError
  | HTTPException nat | OtherError

datatype exn = Exn exn_class string

fun exn_cls :: "exn \<Rightarrow> exn_class" where
  "exn_cls (Exn c m) = c"

fun str_nat :: "nat \<Rightarrow> string" where
  "str_nat n =
     (if n < 10 then [char_of (48 + n)]
      else str_nat (n div 10) @ [char_of (48 + n mod 10)])"

declare str_nat.simps [simp del]

fun str_exn :: "exn \<Rightarrow> string" where
  "str_exn (Exn (HTTPException status_code) detail) = str_nat status_code @ '': '' @ detail"
| "str_exn (Exn c m) = m"

definition key_error :: "string \<Rightarrow> exn" where
  "key_error k = Exn KeyError ([CHR 0x27] @ k @ [CHR 0x27])"

text \<open>The outcome of a call into an external library: it returns a value or raises.\<close>

datatype 'a reply = Reply 'a | Raises exn

text \<open>
  Truthiness of an optional string, as in \<open>if google_material_id:\<close>: \<open>None\<close> and the
  empty string are both false.
\<close>

fun truthy :: "string option \<Rightarrow> bool" where
  "truthy None = False"
| "truthy (Some s) = (s \<noteq> [])"

text \<open>\<open>d.get(key, default)\<close> on a dictionary whose key may be absent.\<close>

fun get_default :: "'a option \<Rightarrow> 'a \<Rightarrow> 'a" where
  "get_default None d = d"
| "get_default (Some v) d = v"

text \<open>Python's \<open>needle in haystack\<close> on strings.\<close>

fun startswith :: "string \<Rightarrow> string \<Rightarrow> bool" where
  "startswith [] s = True"
| "startswith (c # cs) [] = False"
| "startswith (c # cs) (d # ds) = (c = d \<and> startswith cs ds)"

fun contains :: "string \<Rightarrow> string \<Rightarrow> bool" where
  "contains needle [] = (needle = [])"
| "contains needle (c # cs) = (startswith needle (c # cs) \<or> contains needle cs)"

subsection \<open>datetime\<close>

record datetime =
  dt_year :: int
  dt_month :: int
  dt_day :: int
  dt_hour :: int
  dt_minute :: int

definition is_leap :: "int \<Rightarrow> bool" where
  "is_leap y = (y mod 4 = 0 \<and> (y mod 100 \<noteq> 0 \<or> y mod 400 = 0))"

definition days_in_month :: "int \<Rightarrow> int \<Rightarrow> int" where
  "days_in_month y m =
     (if m = 2 then (if is_leap y then 29 else 28)
      else if m = 4 \<or> m = 6 \<or> m = 9 \<or> m = 11 then 30 else 31)"

text \<open>
  The constructor \<open>datetime(year, month, day, hour, minute)\<close> of CPython. It first converts
  every argument to a C \<open>int\<close> and raises \<open>OverflowError\<close> for one that does not fit
  (the text given is the one for a value that still fits a C \<open>long\<close>); only then it
  checks the ranges and raises \<open>ValueError\<close>, the day being checked against the month.
\<close>

definition c_int :: "int \<Rightarrow> bool" where
  "c_int x = (- 2147483648 \<le> x \<and> x \<le> 2147483647)"

definition overflow_error :: "int \<Rightarrow> exn" where
  "overflow_error x =
     (if x < 0 then Exn OverflowError ''signed integer is less than minimum''
      else Exn OverflowError ''signed integer is greater than maximum'')"

definition datetime_new :: "int \<Rightarrow> int \<Rightarrow> int \<Rightarrow> int \<Rightarrow> int \<Rightarrow> exn + datetime" where
  "datetime_new y m d h mi =
     (if \<not> c_int y then Inl (overflow_error y)
      else if \<not> c_int m then Inl (overflow_error m)
      else if \<not> c_int d then Inl (overflow_error d)
      else if \<not> c_int h then Inl (overflow_error h)
      else if \<not> c_int mi then Inl (overflow_error mi)
      else if \<not> (1 \<le> y \<and> y \<le> 9999) then Inl (Exn ValueError ''year is out of range'')
      else if \<not> (1 \<le> m \<and> m \<le> 12) then Inl (Exn ValueError ''month must be in 1..12'')
      else if \<not> (1 \<le> d \<and> d \<le> days_in_month y m)
        then Inl (Exn ValueError ''day is out of range for month'')
      else if \<not> (0 \<le> h \<and> h \<le> 23) then Inl (Exn ValueError ''hour must be in 0..23'')
      else if \<not> (0 \<le> mi \<and> mi \<le> 59) then Inl (Exn ValueError ''minute must be in 0..59'')
      else Inr \<lparr>dt_year = y, dt_month = m, dt_day = d, dt_hour = h, dt_minute = mi\<rparr>)"

section \<open>Remote File Client: \<open>GoogleDriveService\<close>\<close>

text \<open>
  The metadata dictionary returned by \<open>files().get(fields='mimeType, name')\<close>; either
  key may be absent.
\<close>

record file_metadata =
  fm_name :: "string option"
  fm_mimeType :: "string option"

text \<open>The two kinds of media request: \<open>export_media(fileId, mimeType)\<close> and \<open>get_media(fileId)\<close>.\<close>

datatype media_request = Export_media string string | Get_media string

text \<open>
  What \<open>MediaIoBaseDownload.next_chunk()\<close> does call after call: it raises, or writes a
  chunk and reports \<open>done\<close>, or writes a chunk and has more to fetch. The downloader
  reports \<open>done\<close> once the received bytes reach the size of the file, so a transfer is a
  finite sequence of such outcomes.
\<close>

datatype transfer =
    Chunk_raises exn
  | Chunk_done string
  | Chunk_more string transfer

text \<open>A \<open>BytesIO\<close>: its buffer and the stream position.\<close>

record bytesio =
  buf :: string
  pos :: nat

definition bytesio_new :: bytesio where
  "bytesio_new = \<lparr>buf = [], pos = 0\<rparr>"

text \<open>\<open>write\<close> at the position (the downloader only ever appends); \<open>seek\<close>; \<open>read\<close> to the end.\<close>

definition bytesio_write :: "bytesio \<Rightarrow> string \<Rightarrow> bytesio" where
  "bytesio_write fh chunk =
     \<lparr>buf = take (pos fh) (buf fh) @ chunk @ drop (pos fh + length chunk) (buf fh),
      pos = pos fh + length chunk\<rparr>"

definition bytesio_seek :: "bytesio \<Rightarrow> nat \<Rightarrow> bytesio" where
  "bytesio_seek fh n = fh\<lparr>pos := n\<rparr>"

definition bytesio_read :: "bytesio \<Rightarrow> string" where
  "bytesio_read fh = drop (pos fh) (buf fh)"

text \<open>
  The remote side of the Drive client, and the runtime's UTF-8 codec
  (\<open>None\<close> is \<open>UnicodeDecodeError\<close>).
\<close>

record drive_remote =
  files_get :: "string \<Rightarrow> file_metadata reply"
  media_transfer :: "media_request \<Rightarrow> transfer"
  decode_utf8 :: "string \<Rightarrow> string option"

text \<open>The remote calls a client makes, in order, for the properties about what is called.\<close>

datatype remote_call =
    Drive_files_get string
  | Drive_media media_request
  | Drive_files_list string
  | Drive_create_folder string
  | Drive_create_file string "string option"
  | Classroom_create_submission string string
  | Classroom_modify_attachments string string "string option" string
  | Classroom_turn_in string string "string option"

text \<open>
  The choice of request in \<open>download_file\<close>: \<open>None\<close> is the branch that prints
  "Unsupported Google Apps MIME type" and returns \<open>None\<close>.
\<close>

definition choose_request :: "string \<Rightarrow> string \<Rightarrow> media_request option" where
  "choose_request file_id mime_type =
     (if contains ''google-apps'' mime_type then
        (if contains ''document'' mime_type then Some (Export_media file_id ''text/plain'')
         else if contains ''spreadsheet'' mime_type then Some (Export_media file_id ''text/csv'')
         else None)
      else Some (Get_media file_id))"

text \<open>The loop \<open>while not done: status, done = downloader.next_chunk()\<close>.\<close>

fun download_loop :: "transfer \<Rightarrow> bytesio \<Rightarrow> exn + bytesio" where
  "download_loop (Chunk_raises e) fh = Inl e"
| "download_loop (Chunk_done chunk) fh = Inr (bytesio_write fh chunk)"
| "download_loop (Chunk_more chunk t) fh = download_loop t (bytesio_write fh chunk)"

text \<open>
  \<open>download_file\<close>: the calls made and the returned stream (\<open>None\<close> as in Python).
  Both \<open>except\<close> clauses return \<open>None\<close>; a metadata dictionary without \<open>mimeType\<close> makes
  \<open>'google-apps' in mime_type\<close> raise \<open>TypeError\<close>, which the second clause catches.
\<close>

definition download_file :: "drive_remote \<Rightarrow> string \<Rightarrow> remote_call list \<times> bytesio option" where
  "download_file drive file_id =
     (case files_get drive file_id of
        Raises e \<Rightarrow> ([Drive_files_get file_id], None)
      | Reply file_metadata \<Rightarrow>
          (case fm_mimeType file_metadata of
             None \<Rightarrow> ([Drive_files_get file_id], None)
           | Some mime_type \<Rightarrow>
               (case choose_request file_id mime_type of
                  None \<Rightarrow> ([Drive_files_get file_id], None)
                | Some request \<Rightarrow>
                    (case download_loop (media_transfer drive request) bytesio_new of
                       Inl e \<Rightarrow> ([Drive_files_get file_id, Drive_media request], None)
                     | Inr fh \<Rightarrow>
                         ([Drive_files_get file_id, Drive_media request],
                          Some (bytesio_seek fh 0))))))"

section \<open>Persisted entities (\<open>models.py\<close>)\<close>

text \<open>
  One record per table, with the columns of \<open>models.py\<close>; the bookkeeping columns
  \<open>created_at\<close> and \<open>updated_at\<close>, which only the ORM's column defaults write, are
  left out. Nullable columns that the routes may leave empty are options.
\<close>

record course_row =
  c_id :: nat
  c_google_course_id :: string
  c_name :: string
  c_section :: "string option"
  c_description :: "string option"
  c_room :: "string option"
  c_user_id :: nat

record assignment_row =
  a_id :: nat
  a_google_assignment_id :: string
  a_title :: string
  a_description :: "string option"
  a_due_date :: "datetime option"
  a_course_id :: nat
  a_user_id :: nat

record material_row =
  m_id :: nat
  m_google_material_id :: "string option"
  m_title :: string
  m_type :: string
  m_url :: "string option"
  m_content :: "string option"
  m_processed_content :: "string option"
  m_assignment_id :: nat

record draft_row =
  d_id :: nat
  d_content :: string
  d_status :: string
  d_feedback :: "string option"
  d_submission_date :: "datetime option"
  d_user_id :: nat
  d_assignment_id :: nat

record user =
  u_id :: nat
  u_google_access_token :: "string option"

text \<open>The database session: the four tables, each in the order its rows are returned.\<close>

record db =
  courses :: "course_row list"
  assignments :: "assignment_row list"
  materials :: "material_row list"
  drafts :: "draft_row list"

text \<open>The primary key given to an inserted row: above every key in the table.\<close>

definition fresh_id :: "nat list \<Rightarrow> nat" where
  "fresh_id ids = Suc (foldr max ids 0)"

text \<open>
  \<open>query.filter(...).first()\<close> is \<open>find\<close> on the table. A found object that is then
  mutated and committed is written back to the first matching row.
\<close>

fun update_first :: "('a \<Rightarrow> bool) \<Rightarrow> ('a \<Rightarrow> 'a) \<Rightarrow> 'a list \<Rightarrow> 'a list" where
  "update_first P f [] = []"
| "update_first P f (x # xs) = (if P x then f x # xs else x # update_first P f xs)"

section \<open>Reconciliation Engine (\<open>routes/classroom.py\<close>)\<close>

subsection \<open>Remote records\<close>

text \<open>
  The dictionaries of the Classroom API, one record per shape, a field per key the routes
  read, \<open>None\<close> for an absent key.
\<close>

record google_course =
  gc_id :: "string option"
  gc_name :: "string option"
  gc_section :: "string option"
  gc_description :: "string option"
  gc_room :: "string option"

record drive_file_ref =
  df_title :: "string option"
  df_alternateLink :: "string option"
  df_id :: "string option"

record shared_drive_file =
  sdf_driveFile :: "drive_file_ref option"

record youtube_video =
  yt_title :: "string option"
  yt_alternateLink :: "string option"
  yt_id :: "string option"

record link_material =
  ln_title :: "string option"
  ln_url :: "string option"

record form_material =
  fr_title :: "string option"
  fr_formUrl :: "string option"
  fr_id :: "string option"

record google_material =
  gm_driveFile :: "shared_drive_file option"
  gm_youtubeVideo :: "youtube_video option"
  gm_link :: "link_material option"
  gm_form :: "form_material option"

record due_date_parts =
  dd_year :: "int option"
  dd_month :: "int option"
  dd_day :: "int option"

record time_of_day =
  tod_hours :: "int option"
  tod_minutes :: "int option"

record google_coursework =
  cw_id :: "string option"
  cw_title :: "string option"
  cw_description :: "string option"
  cw_dueDate :: "due_date_parts option"
  cw_dueTime :: "time_of_day option"
  cw_materials :: "google_material list option"

subsection \<open>Material sync: \<open>process_materials\<close>\<close>

text \<open>The local variables the loop body sets before it touches the database.\<close>

record material_fields =
  mf_type :: string
  mf_title :: string
  mf_url :: "string option"
  mf_content :: "string option"
  mf_google_material_id :: "string option"

text \<open>The download attempt of the \<open>driveFile\<close> branch, with its two sentinel texts.\<close>

definition drive_file_content :: "drive_remote \<Rightarrow> string \<Rightarrow> string" where
  "drive_file_content drive file_id =
     (case snd (download_file drive file_id) of
        None \<Rightarrow> ''[Content download failed]''
      | Some stream \<Rightarrow>
          (case decode_utf8 drive (bytesio_read stream) of
             None \<Rightarrow> ''[Error decoding content]''
           | Some text \<Rightarrow> text))"

text \<open>The \<open>if\<close>/\<open>elif\<close> chain over the four variant keys, in the source's order.\<close>

definition normalize_material :: "drive_remote \<Rightarrow> google_material \<Rightarrow> material_fields" where
  "normalize_material drive material =
     (case gm_driveFile material of
        Some shared \<Rightarrow>
          (let drive_file = get_default (sdf_driveFile shared)
                 \<lparr>df_title = None, df_alternateLink = None, df_id = None\<rparr>;
               google_material_id = df_id drive_file
           in \<lparr>mf_type = ''drive_file'',
               mf_title = get_default (df_title drive_file) ''Drive File'',
               mf_url = df_alternateLink drive_file,
               mf_content =
                 (case google_material_id of
                    None \<Rightarrow> None
                  | Some file_id \<Rightarrow>
                      (if file_id \<noteq> [] then Some (drive_file_content drive file_id)
                       else None)),
               mf_google_material_id = google_material_id\<rparr>)
      | None \<Rightarrow>
     (case gm_youtubeVideo material of
        Some video \<Rightarrow>
          \<lparr>mf_type = ''youtube'',
           mf_title = get_default (yt_title video) ''YouTube Video'',
           mf_url = yt_alternateLink video,
           mf_content = None,
           mf_google_material_id = yt_id video\<rparr>
      | None \<Rightarrow>
     (case gm_link material of
        Some link \<Rightarrow>
          \<lparr>mf_type = ''link'',
           mf_title = get_default (ln_title link) ''Link'',
           mf_url = ln_url link,
           mf_content = None,
           mf_google_material_id = None\<rparr>
      | None \<Rightarrow>
     (case gm_form material of
        Some form \<Rightarrow>
          \<lparr>mf_type = ''form'',
           mf_title = get_default (fr_title form) ''Form'',
           mf_url = fr_formUrl form,
           mf_content = None,
           mf_google_material_id = fr_id form\<rparr>
      | None \<Rightarrow>
          \<lparr>mf_type = ''unknown'',
           mf_title = ''Untitled Material'',
           mf_url = None,
           mf_content = None,
           mf_google_material_id = None\<rparr>))))"

text \<open>
  The three positional criteria of the lookup
  \<^verbatim>\<open>filter(M.google_material_id == google_material_id if google_material_id else None,
         M.assignment_id == assignment_id,
         M.url == url if url else None)\<close>.
  The conditional expression binds weaker than \<open>==\<close>, so a falsy id or url makes the whole
  criterion \<open>None\<close>, which the ORM renders as the SQL constant \<open>NULL\<close>: a conjunction with
  it is true for no row.
\<close>

definition material_criteria ::
  "string option \<Rightarrow> nat \<Rightarrow> string option \<Rightarrow> (material_row \<Rightarrow> bool) option list" where
  "material_criteria google_material_id assignment_id url =
     [if truthy google_material_id
        then Some (\<lambda>r. m_google_material_id r = google_material_id) else None,
      Some (\<lambda>r. m_assignment_id r = assignment_id),
      if truthy url then Some (\<lambda>r. m_url r = url) else None]"

fun criterion_holds :: "('r \<Rightarrow> bool) option \<Rightarrow> 'r \<Rightarrow> bool" where
  "criterion_holds None r = False"
| "criterion_holds (Some p) r = p r"

definition row_matches :: "('r \<Rightarrow> bool) option list \<Rightarrow> 'r \<Rightarrow> bool" where
  "row_matches criteria r = list_all (\<lambda>c. criterion_holds c r) criteria"

text \<open>The create-or-update half of the loop body.\<close>

definition upsert_material :: "db \<Rightarrow> nat \<Rightarrow> material_fields \<Rightarrow> db" where
  "upsert_material s assignment_id f =
     (let criteria = material_criteria (mf_google_material_id f) assignment_id (mf_url f) in
      case find (row_matches criteria) (materials s) of
        None \<Rightarrow>
          s\<lparr>materials := materials s @
              [\<lparr>m_id = fresh_id (map m_id (materials s)),
                m_google_material_id = mf_google_material_id f,
                m_title = mf_title f,
                m_type = mf_type f,
                m_url = mf_url f,
                m_content = mf_content f,
                m_processed_content = None,
                m_assignment_id = assignment_id\<rparr>]\<rparr>
      | Some db_material \<Rightarrow>
          s\<lparr>materials := update_first (row_matches criteria)
              (\<lambda>r. r\<lparr>m_title := mf_title f,
                      m_url := mf_url f,
                      m_type := mf_type f,
                      m_content := (if truthy (mf_content f) then mf_content f else m_content r)\<rparr>)
              (materials s)\<rparr>)"

fun process_materials :: "db \<Rightarrow> drive_remote \<Rightarrow> google_material list \<Rightarrow> nat \<Rightarrow> db" where
  "process_materials s drive [] assignment_id = s"
| "process_materials s drive (material # rest) assignment_id =
     process_materials (upsert_material s assignment_id (normalize_material drive material))
       drive rest assignment_id"

subsection \<open>Assignment sync: \<open>get_assignments\<close>\<close>

text \<open>
  The due date of a coursework record. Only \<open>ValueError\<close> is caught; the
  \<open>OverflowError\<close> of the constructor leaves the block and the route.
\<close>

definition parse_due_date :: "google_coursework \<Rightarrow> exn + datetime option" where
  "parse_due_date google_assignment =
     (case (cw_dueDate google_assignment, cw_dueTime google_assignment) of
        (Some due_info, Some time_info) \<Rightarrow>
          (case datetime_new
                  (get_default (dd_year due_info) 1970)
                  (get_default (dd_month due_info) 1)
                  (get_default (dd_day due_info) 1)
                  (get_default (tod_hours time_info) 0)
                  (get_default (tod_minutes time_info) 0) of
             Inr d \<Rightarrow> Inr (Some d)
           | Inl e \<Rightarrow> (if exn_cls e = ValueError then Inr None else Inl e))
      | _ \<Rightarrow> Inr None)"

text \<open>
  One turn of the loop over the fetched coursework: the lookup (\<open>google_assignment["id"]\<close>
  raises \<open>KeyError\<close> on a record without id), the due date, create or update, then the
  materials. It returns the new session and the row appended to the result.
\<close>

definition sync_assignment ::
  "db \<Rightarrow> drive_remote \<Rightarrow> course_row \<Rightarrow> user \<Rightarrow> google_coursework \<Rightarrow> exn + (db \<times> assignment_row)" where
  "sync_assignment s drive db_course current_user google_assignment =
     (case cw_id google_assignment of
        None \<Rightarrow> Inl (key_error ''id'')
      | Some gid \<Rightarrow>
     (case parse_due_date google_assignment of
        Inl e \<Rightarrow> Inl e
      | Inr due_date \<Rightarrow>
          (let same = (\<lambda>r. a_google_assignment_id r = gid \<and> a_course_id r = c_id db_course);
               db_assignment =
                 (case find same (assignments s) of
                    None \<Rightarrow>
                      \<lparr>a_id = fresh_id (map a_id (assignments s)),
                       a_google_assignment_id = gid,
                       a_title = get_default (cw_title google_assignment) ''Untitled Assignment'',
                       a_description = Some (get_default (cw_description google_assignment) []),
                       a_due_date = due_date,
                       a_course_id = c_id db_course,
                       a_user_id = u_id current_user\<rparr>
                  | Some r \<Rightarrow>
                      r\<lparr>a_title := get_default (cw_title google_assignment) (a_title r),
                        a_description :=
                          (case cw_description google_assignment of
                             Some d \<Rightarrow> Some d | None \<Rightarrow> a_description r),
                        a_due_date :=
                          (case due_date of Some d \<Rightarrow> Some d | None \<Rightarrow> a_due_date r)\<rparr>);
               s1 =
                 (case find same (assignments s) of
                    None \<Rightarrow> s\<lparr>assignments := assignments s @ [db_assignment]\<rparr>
                  | Some r \<Rightarrow>
                      s\<lparr>assignments := update_first same (\<lambda>_. db_assignment) (assignments s)\<rparr>);
               s2 =
                 (case cw_materials google_assignment of
                    None \<Rightarrow> s1
                  | Some google_materials \<Rightarrow>
                      process_materials s1 drive google_materials (a_id db_assignment))
           in Inr (s2, db_assignment))))"

text \<open>
  The loop. An exception leaves it with the commits of the earlier turns in place.
\<close>

fun sync_assignments ::
  "db \<Rightarrow> drive_remote \<Rightarrow> course_row \<Rightarrow> user \<Rightarrow> google_coursework list
     \<Rightarrow> db \<times> (exn + assignment_row list)" where
  "sync_assignments s drive db_course current_user [] = (s, Inr [])"
| "sync_assignments s drive db_course current_user (g # gs) =
     (case sync_assignment s drive db_course current_user g of
        Inl e \<Rightarrow> (s, Inl e)
      | Inr (s1, row) \<Rightarrow>
          (case sync_assignments s1 drive db_course current_user gs of
             (s2, Inl e) \<Rightarrow> (s2, Inl e)
           | (s2, Inr rows) \<Rightarrow> (s2, Inr (row # rows))))"

text \<open>
  \<open>GoogleClassroomService.get_assignments\<close> and \<open>get_courses\<close>: an \<open>HttpError\<close> of the
  list call becomes the empty list, any other exception passes through.
\<close>

definition fetch_list :: "'a list reply \<Rightarrow> exn + 'a list" where
  "fetch_list r =
     (case r of
        Reply xs \<Rightarrow> Inr xs
      | Raises e \<Rightarrow> (if exn_cls e = HttpError then Inr [] else Inl e))"

text \<open>The route: the two guards, the fetch, the loop.\<close>

definition get_assignments ::
  "db \<Rightarrow> drive_remote \<Rightarrow> (string \<Rightarrow> google_coursework list reply) \<Rightarrow> user \<Rightarrow> nat
     \<Rightarrow> db \<times> (exn + assignment_row list)" where
  "get_assignments s drive course_work current_user course_id =
     (if \<not> truthy (u_google_access_token current_user)
      then (s, Inl (Exn (HTTPException 403) ''Google authentication required''))
      else
        (case find (\<lambda>c. c_id c = course_id \<and> c_user_id c = u_id current_user) (courses s) of
           None \<Rightarrow> (s, Inl (Exn (HTTPException 404) ''Course not found''))
         | Some db_course \<Rightarrow>
             (case fetch_list (course_work (c_google_course_id db_course)) of
                Inl e \<Rightarrow> (s, Inl e)
              | Inr google_assignments \<Rightarrow>
                  sync_assignments s drive db_course current_user google_assignments)))"

subsection \<open>Course sync: \<open>get_courses\<close>\<close>

definition sync_course :: "db \<Rightarrow> user \<Rightarrow> google_course \<Rightarrow> exn + (db \<times> course_row)" where
  "sync_course s current_user google_course =
     (case gc_id google_course of
        None \<Rightarrow> Inl (key_error ''id'')
      | Some gid \<Rightarrow>
          (let same = (\<lambda>r. c_google_course_id r = gid \<and> c_user_id r = u_id current_user) in
           case find same (courses s) of
             None \<Rightarrow>
               (let db_course =
                      \<lparr>c_id = fresh_id (map c_id (courses s)),
                       c_google_course_id = gid,
                       c_name = get_default (gc_name google_course) ''Unnamed Course'',
                       c_section = gc_section google_course,
                       c_description = gc_description google_course,
                       c_room = gc_room google_course,
                       c_user_id = u_id current_user\<rparr>
                in Inr (s\<lparr>courses := courses s @ [db_course]\<rparr>, db_course))
           | Some r \<Rightarrow>
               (let db_course =
                      r\<lparr>c_name := get_default (gc_name google_course) (c_name r),
                        c_section :=
                          (case gc_section google_course of Some v \<Rightarrow> Some v | None \<Rightarrow> c_section r),
                        c_description :=
                          (case gc_description google_course of
                             Some v \<Rightarrow> Some v | None \<Rightarrow> c_description r),
                        c_room :=
                          (case gc_room google_course of Some v \<Rightarrow> Some v | None \<Rightarrow> c_room r)\<rparr>
                in Inr (s\<lparr>courses := update_first same (\<lambda>_. db_course) (courses s)\<rparr>,
                        db_course))))"

fun sync_courses :: "db \<Rightarrow> user \<Rightarrow> google_course list \<Rightarrow> db \<times> (exn + course_row list)" where
  "sync_courses s current_user [] = (s, Inr [])"
| "sync_courses s current_user (g # gs) =
     (case sync_course s current_user g of
        Inl e \<Rightarrow> (s, Inl e)
      | Inr (s1, row) \<Rightarrow>
          (case sync_courses s1 current_user gs of
             (s2, Inl e) \<Rightarrow> (s2, Inl e)
           | (s2, Inr rows) \<Rightarrow> (s2, Inr (row # rows))))"

definition get_courses ::
  "db \<Rightarrow> google_course list reply \<Rightarrow> user \<Rightarrow> db \<times> (exn + course_row list)" where
  "get_courses s course_list current_user =
     (if \<not> truthy (u_google_access_token current_user)
      then (s, Inl (Exn (HTTPException 403) ''Google authentication required''))
      else
        (case fetch_list course_list of
           Inl e \<Rightarrow> (s, Inl e)
         | Inr google_courses \<Rightarrow> sync_courses s current_user google_courses))"

section \<open>Submission Orchestrator (\<open>routes/assignments.py\<close>)\<close>

subsection \<open>The outside world of one submission\<close>

text \<open>
  The dictionary \<open>files().create(fields='id, name, webViewLink, webContentLink')\<close> returns,
  and the student submission returned by \<open>turnIn\<close>; an absent key is \<open>None\<close>, so the
  empty dictionary has every field \<open>None\<close>.
\<close>

record uploaded_file =
  f_id :: "string option"
  f_name :: "string option"
  f_webViewLink :: "string option"
  f_webContentLink :: "string option"

record student_submission =
  ss_id :: "string option"
  ss_state :: "string option"

text \<open>
  What the renderer, the file system, Drive, Classroom and the clock answer during one
  call of the route. The renderer answers twice: \<open>story_reply\<close> is the composition of the
  story, where \<open>Paragraph(...)\<close> parses the title and every paragraph of the draft and
  raises on markup it cannot parse, and \<open>build_reply\<close> is \<open>doc.build\<close>. \<open>os.remove\<close> on a
  path either succeeds or raises \<open>OSError\<close> with a text. The folder listing is the list of
  the \<open>id\<close> keys of the entries found.
\<close>

record submit_world =
  tmp_name :: string
  story_reply :: "unit reply"
  build_reply :: "unit reply"
  os_remove_error :: "string option"
  folder_list_reply :: "string option list reply"
  folder_create_reply :: "string option reply"
  upload_reply :: "uploaded_file reply"
  create_submission_reply :: "string option reply"
  modify_attachments_reply :: "unit reply"
  turn_in_reply :: "student_submission reply"
  utcnow :: datetime

subsection \<open>\<open>PDFGenerator.generate_pdf\<close>\<close>

definition os_remove :: "submit_world \<Rightarrow> string set \<Rightarrow> string \<Rightarrow> exn + string set" where
  "os_remove w files path =
     (case os_remove_error w of
        None \<Rightarrow> Inr (files - {path})
      | Some msg \<Rightarrow> Inl (Exn OSError msg))"

text \<open>
  The temporary file is created first (\<open>NamedTemporaryFile(delete=False)\<close>). The story
  is composed outside any \<open>try\<close>: an exception there leaves the method with the file
  still on disk. Only \<open>doc.build\<close> is guarded: when it raises, the file is removed and
  the exception raised again, and an exception of that removal takes its place.
\<close>

definition generate_pdf :: "submit_world \<Rightarrow> string set \<Rightarrow> string set \<times> (exn + string)" where
  "generate_pdf w files =
     (let pdf_path = tmp_name w; files1 = insert pdf_path files in
      case story_reply w of
        Raises e \<Rightarrow> (files1, Inl e)
      | Reply story \<Rightarrow>
          (case build_reply w of
             Reply u \<Rightarrow> (files1, Inr pdf_path)
           | Raises e \<Rightarrow>
               (if pdf_path \<in> files1 then
                  (case os_remove w files1 pdf_path of
                     Inl e' \<Rightarrow> (files1, Inl e')
                   | Inr files2 \<Rightarrow> (files2, Inl e))
                else (files1, Inl e))))"

subsection \<open>\<open>GoogleDriveService.find_or_create_folder\<close> and \<open>upload_file\<close>\<close>

definition folder_query :: "string \<Rightarrow> string" where
  "folder_query folder_name =
     ''mimeType='' @ [CHR 0x27] @ ''application/vnd.google-apps.folder'' @ [CHR 0x27]
       @ '' and name='' @ [CHR 0x27] @ folder_name @ [CHR 0x27] @ '' and trashed=false''"

text \<open>Every exception is caught and gives \<open>None\<close>, also the \<open>KeyError\<close> of \<open>items[0]['id']\<close>.\<close>

definition find_or_create_folder ::
  "submit_world \<Rightarrow> string \<Rightarrow> remote_call list \<times> string option" where
  "find_or_create_folder w folder_name =
     (case folder_list_reply w of
        Raises e \<Rightarrow> ([Drive_files_list (folder_query folder_name)], None)
      | Reply items \<Rightarrow>
          (case items of
             item # others \<Rightarrow> ([Drive_files_list (folder_query folder_name)], item)
           | [] \<Rightarrow>
               (case folder_create_reply w of
                  Raises e \<Rightarrow>
                    ([Drive_files_list (folder_query folder_name),
                      Drive_create_folder folder_name], None)
                | Reply folder_id \<Rightarrow>
                    ([Drive_files_list (folder_query folder_name),
                      Drive_create_folder folder_name], folder_id))))"

text \<open>
  \<open>upload_file\<close> reads the local file inside its \<open>try\<close>, so a missing file gives \<open>None\<close>
  before any request; the folder becomes the single parent when it is truthy.
\<close>

definition upload_file ::
  "submit_world \<Rightarrow> string set \<Rightarrow> string \<Rightarrow> string \<Rightarrow> string option
     \<Rightarrow> remote_call list \<times> uploaded_file option" where
  "upload_file w files file_path file_name folder_id =
     (if file_path \<notin> files then ([], None)
      else
        (let call = Drive_create_file file_name (if truthy folder_id then folder_id else None) in
         case upload_reply w of
           Raises e \<Rightarrow> ([call], None)
         | Reply file \<Rightarrow> ([call], Some file)))"

subsection \<open>\<open>GoogleClassroomService.create_submission\<close>\<close>

text \<open>
  The three calls in order. Only \<open>HttpError\<close> is caught, and gives the empty dictionary;
  any other exception leaves the method. The attachment is
  \<open>{'driveFile': {'id': drive_file_id}}\<close>.
\<close>

definition submission_failed :: "exn \<Rightarrow> exn + student_submission" where
  "submission_failed e =
     (if exn_cls e = HttpError then Inr \<lparr>ss_id = None, ss_state = None\<rparr> else Inl e)"

definition create_submission ::
  "submit_world \<Rightarrow> string \<Rightarrow> string \<Rightarrow> string
     \<Rightarrow> remote_call list \<times> (exn + student_submission)" where
  "create_submission w course_id coursework_id drive_file_id =
     (case create_submission_reply w of
        Raises e \<Rightarrow>
          ([Classroom_create_submission course_id coursework_id], submission_failed e)
      | Reply submission_id \<Rightarrow>
          (case modify_attachments_reply w of
             Raises e \<Rightarrow>
               ([Classroom_create_submission course_id coursework_id,
                 Classroom_modify_attachments course_id coursework_id submission_id drive_file_id],
                submission_failed e)
           | Reply u \<Rightarrow>
               (case turn_in_reply w of
                  Raises e \<Rightarrow>
                    ([Classroom_create_submission course_id coursework_id,
                      Classroom_modify_attachments course_id coursework_id submission_id
                        drive_file_id,
                      Classroom_turn_in course_id coursework_id submission_id],
                     submission_failed e)
                | Reply final_submission \<Rightarrow>
                    ([Classroom_create_submission course_id coursework_id,
                      Classroom_modify_attachments course_id coursework_id submission_id
                        drive_file_id,
                      Classroom_turn_in course_id coursework_id submission_id],
                     Inr final_submission))))"

subsection \<open>\<open>submit_draft_to_classroom\<close>\<close>

record submit_success =
  ok_submission_date :: "datetime option"
  ok_classroom_submission_id :: string
  ok_drive_file_id :: string

text \<open>What a call of the route leaves behind and returns.\<close>

record submit_outcome =
  out_db :: db
  out_files :: "string set"
  out_calls :: "remote_call list"
  out_result :: "exn + submit_success"

definition pdf_filename :: "string \<Rightarrow> string" where
  "pdf_filename title =
     map (\<lambda>c. if c = CHR '' '' then CHR ''_'' else c) title @ ''_submission.pdf''"

text \<open>
  The body of the \<open>try\<close> block: it gives the session, the files, the value of \<open>pdf_path\<close>
  when the block is left, the remote calls made, and the return value or the exception raised.
  \<open>not uploaded_file or 'id' not in uploaded_file\<close> holds of \<open>None\<close>, of the empty
  dictionary and of any other dictionary without \<open>id\<close>; the same for the submission.
\<close>

definition submission_steps ::
  "db \<Rightarrow> string set \<Rightarrow> submit_world \<Rightarrow> nat \<Rightarrow> user \<Rightarrow> assignment_row \<Rightarrow> course_row
     \<Rightarrow> db \<times> string set \<times> string option \<times> remote_call list \<times> (exn + submit_success)" where
  "submission_steps s files w draft_id current_user assignment course =
     (case generate_pdf w files of
        (files1, Inl e) \<Rightarrow> (s, files1, None, [], Inl e)
      | (files1, Inr pdf_path) \<Rightarrow>
     (case find_or_create_folder w ''OpenCoder Submissions'' of (calls1, folder_id) \<Rightarrow>
     (case upload_file w files1 pdf_path (pdf_filename (a_title assignment)) folder_id of
        (calls2, uploaded) \<Rightarrow>
     (case (case uploaded of None \<Rightarrow> None | Some file \<Rightarrow> f_id file) of
        None \<Rightarrow>
          (s, files1, Some pdf_path, calls1 @ calls2,
           Inl (Exn (HTTPException 500) ''Failed to upload PDF to Google Drive''))
      | Some drive_file_id \<Rightarrow>
     (case create_submission w (c_google_course_id course)
             (a_google_assignment_id assignment) drive_file_id of
        (calls3, Inl e) \<Rightarrow> (s, files1, Some pdf_path, calls1 @ calls2 @ calls3, Inl e)
      | (calls3, Inr submission_result) \<Rightarrow>
     (case ss_id submission_result of
        None \<Rightarrow>
          (s, files1, Some pdf_path, calls1 @ calls2 @ calls3,
           Inl (Exn (HTTPException 500) ''Failed to submit assignment to Google Classroom''))
      | Some submission_id \<Rightarrow>
          (s\<lparr>drafts :=
               update_first (\<lambda>d. d_id d = draft_id \<and> d_user_id d = u_id current_user)
                 (\<lambda>d. d\<lparr>d_status := ''submitted'', d_submission_date := Some (utcnow w)\<rparr>)
                 (drafts s)\<rparr>,
           files1, Some pdf_path, calls1 @ calls2 @ calls3,
           Inr \<lparr>ok_submission_date = Some (utcnow w),
                ok_classroom_submission_id = submission_id,
                ok_drive_file_id = drive_file_id\<rparr>)))))))"

text \<open>
  The \<open>finally\<close> block: the file is removed when \<open>pdf_path\<close> is set and the file exists;
  an \<open>OSError\<close> of the removal is printed and dropped. When \<open>pdf_path\<close> is set it is
  the name of the temporary file, which is never the empty string, so \<open>if pdf_path\<close> tests
  for \<open>None\<close>.
\<close>

definition cleanup :: "submit_world \<Rightarrow> string set \<Rightarrow> string option \<Rightarrow> string set" where
  "cleanup w files pdf_path =
     (case pdf_path of
        None \<Rightarrow> files
      | Some p \<Rightarrow>
          (if p \<in> files then
             (case os_remove w files p of Inl e \<Rightarrow> files | Inr files' \<Rightarrow> files')
           else files))"

text \<open>
  The route: the guards before the \<open>try\<close>, each with its own \<open>HTTPException\<close>; the
  \<open>try\<close> block; the \<open>except Exception\<close> that wraps any exception of the block in a 500;
  the \<open>finally\<close>. Building the two service objects only wraps the stored tokens and makes
  no request, so it is not a step of its own.
\<close>

definition rejected :: "db \<Rightarrow> string set \<Rightarrow> nat \<Rightarrow> string \<Rightarrow> submit_outcome" where
  "rejected s files code detail =
     \<lparr>out_db = s, out_files = files, out_calls = [],
      out_result = Inl (Exn (HTTPException code) detail)\<rparr>"

definition submit_draft_to_classroom ::
  "db \<Rightarrow> string set \<Rightarrow> submit_world \<Rightarrow> user \<Rightarrow> nat \<Rightarrow> submit_outcome" where
  "submit_draft_to_classroom s files w current_user draft_id =
     (case find (\<lambda>d. d_id d = draft_id \<and> d_user_id d = u_id current_user) (drafts s) of
        None \<Rightarrow> rejected s files 404 ''Draft not found''
      | Some draft \<Rightarrow>
     (if d_status draft = ''submitted'' then rejected s files 400 ''Draft already submitted''
      else
     (case find (\<lambda>a. a_id a = d_assignment_id draft) (assignments s) of
        None \<Rightarrow> rejected s files 404 ''Associated assignment not found''
      | Some assignment \<Rightarrow>
     (case find (\<lambda>c. c_id c = a_course_id assignment) (courses s) of
        None \<Rightarrow> rejected s files 404 ''Associated course not found''
      | Some course \<Rightarrow>
     (if \<not> truthy (u_google_access_token current_user)
      then rejected s files 403 ''Google authentication required for submission''
      else
        (case submission_steps s files w draft_id current_user assignment course of
           (s1, files1, pdf_path, calls, r) \<Rightarrow>
             \<lparr>out_db = s1,
              out_files = cleanup w files1 pdf_path,
              out_calls = calls,
              out_result =
                (case r of
                   Inl e \<Rightarrow>
                     Inl (Exn (HTTPException 500)
                            (''An error occurred during submission: '' @ str_exn e))
                 | Inr ok \<Rightarrow> Inr ok)\<rparr>))))))"

text \<open>
  The render step succeeds when neither the composition of the story nor the build raises.
\<close>

definition rendered :: "submit_world \<Rightarrow> bool" where
  "rendered w =
     ((case story_reply w of Reply story \<Rightarrow> True | Raises e \<Rightarrow> False) \<and>
      (case build_reply w of Reply u \<Rightarrow> True | Raises e \<Rightarrow> False))"


fun is_classroom_call :: "remote_call \<Rightarrow> bool" where
  "is_classroom_call (Classroom_create_submission c w) = True"
| "is_classroom_call (Classroom_modify_attachments c w i f) = True"
| "is_classroom_call (Classroom_turn_in c w i) = True"
| "is_classroom_call other = False"

section \<open>Content Generation Task (\<open>generate_draft_content\<close>)\<close>

text \<open>The dictionary the generator returns; \<open>generation_result["content"]\<close> needs the key.\<close>

record generation_result =
  gr_content :: "string option"

text \<open>The \<open>except\<close> branch: the draft, when it is still there, gets the error text and status.\<close>

definition store_error :: "db \<Rightarrow> nat \<Rightarrow> exn \<Rightarrow> db" where
  "store_error s draft_id e =
     (case find (\<lambda>d. d_id d = draft_id) (drafts s) of
        None \<Rightarrow> s
      | Some draft \<Rightarrow>
          s\<lparr>drafts := update_first (\<lambda>d. d_id d = draft_id)
              (\<lambda>d. d\<lparr>d_content := ''Error generating content: '' @ str_exn e,
                      d_status := ''error''\<rparr>)
              (drafts s)\<rparr>)"

definition generate_draft_content :: "db \<Rightarrow> generation_result reply \<Rightarrow> nat \<Rightarrow> db" where
  "generate_draft_content s generated draft_id =
     (case generated of
        Raises e \<Rightarrow> store_error s draft_id e
      | Reply generation_result \<Rightarrow>
          (case find (\<lambda>d. d_id d = draft_id) (drafts s) of
             None \<Rightarrow> s
           | Some draft \<Rightarrow>
               (case gr_content generation_result of
                  None \<Rightarrow> store_error s draft_id (key_error ''content'')
                | Some text \<Rightarrow>
                    s\<lparr>drafts := update_first (\<lambda>d. d_id d = draft_id)
                        (\<lambda>d. d\<lparr>d_content := text, d_status := ''draft''\<rparr>)
                        (drafts s)\<rparr>)))"

section \<open>Describing a transfer\<close>

text \<open>
  Two readings of a transfer, used to state what \<open>download_file\<close> returns: the exception
  that ends it, if one does, and the chunks it delivers in order.
\<close>

fun transfer_error :: "transfer \<Rightarrow> exn option" where
  "transfer_error (Chunk_raises e) = Some e"
| "transfer_error (Chunk_done chunk) = None"
| "transfer_error (Chunk_more chunk t) = transfer_error t"

fun chunks_of :: "transfer \<Rightarrow> string list" where
  "chunks_of (Chunk_raises e) = []"
| "chunks_of (Chunk_done chunk) = [chunk]"
| "chunks_of (Chunk_more chunk t) = chunk # chunks_of t"

section \<open>Example inputs\<close>

text \<open>
  A Drive with a native document, a native spreadsheet, a native presentation and a PDF
  whose download breaks; every other id is unknown to it.
\<close>

definition example_drive :: drive_remote where
  "example_drive =
     \<lparr>files_get = (\<lambda>file_id.
        if file_id = ''doc1'' then
          Reply \<lparr>fm_name = Some ''Notes'',
                 fm_mimeType = Some ''application/vnd.google-apps.document''\<rparr>
        else if file_id = ''sheet1'' then
          Reply \<lparr>fm_name = Some ''Grades'',
                 fm_mimeType = Some ''application/vnd.google-apps.spreadsheet''\<rparr>
        else if file_id = ''slides1'' then
          Reply \<lparr>fm_name = Some ''Talk'',
                 fm_mimeType = Some ''application/vnd.google-apps.presentation''\<rparr>
        else if file_id = ''pdf1'' then
          Reply \<lparr>fm_name = Some ''paper.pdf'', fm_mimeType = Some ''application/pdf''\<rparr>
        else Raises (Exn HttpError ''File not found'')),
      media_transfer = (\<lambda>request.
        if request = Export_media ''doc1'' ''text/plain''
          then Chunk_more ''Read chapter '' (Chunk_done ''3'')
        else if request = Export_media ''sheet1'' ''text/csv'' then Chunk_done ''a,b''
        else Chunk_raises (Exn HttpError ''Download failed'')),
      decode_utf8 = Some\<rparr>"

definition example_user :: user where
  "example_user = \<lparr>u_id = 1, u_google_access_token = Some ''token''\<rparr>"

definition example_course :: course_row where
  "example_course =
     \<lparr>c_id = 1, c_google_course_id = ''c100'', c_name = ''Algebra'', c_section = None,
      c_description = None, c_room = None, c_user_id = 1\<rparr>"

definition example_assignment :: assignment_row where
  "example_assignment =
     \<lparr>a_id = 1, a_google_assignment_id = ''cw7'', a_title = ''Essay 1'',
      a_description = Some ''Write an essay'',
      a_due_date = Some \<lparr>dt_year = 2024, dt_month = 5, dt_day = 1, dt_hour = 23, dt_minute = 59\<rparr>,
      a_course_id = 1, a_user_id = 1\<rparr>"

definition example_material :: material_row where
  "example_material =
     \<lparr>m_id = 1, m_google_material_id = Some ''yt9'', m_title = ''Old title'',
      m_type = ''youtube'', m_url = Some ''https://youtu.be/yt9'',
      m_content = Some ''Transcript'', m_processed_content = None, m_assignment_id = 1\<rparr>"

definition example_draft :: draft_row where
  "example_draft =
     \<lparr>d_id = 1, d_content = ''My essay'', d_status = ''draft'', d_feedback = None,
      d_submission_date = None, d_user_id = 1, d_assignment_id = 1\<rparr>"

definition generating_draft :: draft_row where
  "generating_draft =
     \<lparr>d_id = 2, d_content = ''Generating content...'', d_status = ''generating'',
      d_feedback = None, d_submission_date = None, d_user_id = 1, d_assignment_id = 1\<rparr>"

definition example_db :: db where
  "example_db =
     \<lparr>courses = [example_course], assignments = [example_assignment],
      materials = [example_material], drafts = [example_draft, generating_draft]\<rparr>"

definition empty_db :: db where
  "empty_db = \<lparr>courses = [], assignments = [], materials = [], drafts = []\<rparr>"

text \<open>A coursework record due on February 30, for the assignment already stored.\<close>

definition february_30 :: google_coursework where
  "february_30 =
     \<lparr>cw_id = Some ''cw7'', cw_title = None, cw_description = None,
      cw_dueDate = Some \<lparr>dd_year = Some 2024, dd_month = Some 2, dd_day = Some 30\<rparr>,
      cw_dueTime = Some \<lparr>tod_hours = Some 12, tod_minutes = Some 0\<rparr>,
      cw_materials = None\<rparr>"

text \<open>A coursework record with a date and no time, and a new title.\<close>

definition date_without_time :: google_coursework where
  "date_without_time =
     \<lparr>cw_id = Some ''cw7'', cw_title = Some ''Essay 1 (revised)'', cw_description = None,
      cw_dueDate = Some \<lparr>dd_year = Some 2024, dd_month = Some 6, dd_day = Some 1\<rparr>,
      cw_dueTime = None,
      cw_materials = None\<rparr>"

text \<open>A coursework record whose year does not fit a C \<open>int\<close>.\<close>

definition year_too_large :: google_coursework where
  "year_too_large =
     \<lparr>cw_id = Some ''cw8'', cw_title = None, cw_description = None,
      cw_dueDate = Some \<lparr>dd_year = Some 2147483648, dd_month = Some 1, dd_day = Some 1\<rparr>,
      cw_dueTime = Some \<lparr>tod_hours = Some 0, tod_minutes = Some 0\<rparr>,
      cw_materials = None\<rparr>"

definition link_only :: google_material where
  "link_only =
     \<lparr>gm_driveFile = None, gm_youtubeVideo = None,
      gm_link = Some \<lparr>ln_title = Some ''Syllabus'', ln_url = Some ''https://example.org/syllabus''\<rparr>,
      gm_form = None\<rparr>"

definition no_variant :: google_material where
  "no_variant =
     \<lparr>gm_driveFile = None, gm_youtubeVideo = None, gm_link = None, gm_form = None\<rparr>"








text \<open>
  A world in which every step of a submission succeeds, and variants of it: the upload
  raises, the upload answers without an id, the removal of the temporary file fails, the
  last Classroom call fails, the draft has markup that \<open>Paragraph\<close> cannot parse.
\<close>

definition good_world :: submit_world where
  "good_world =
     \<lparr>tmp_name = ''/tmp/tmp1.pdf'',
      story_reply = Reply (),
      build_reply = Reply (),
      os_remove_error = None,
      folder_list_reply = Reply [Some ''folder1''],
      folder_create_reply = Reply (Some ''folder2''),
      upload_reply =
        Reply \<lparr>f_id = Some ''file1'', f_name = Some ''Essay_1_submission.pdf'',
               f_webViewLink = None, f_webContentLink = None\<rparr>,
      create_submission_reply = Reply (Some ''sub1''),
      modify_attachments_reply = Reply (),
      turn_in_reply = Reply \<lparr>ss_id = Some ''sub1'', ss_state = Some ''TURNED_IN''\<rparr>,
      utcnow = \<lparr>dt_year = 2024, dt_month = 4, dt_day = 30, dt_hour = 10, dt_minute = 15\<rparr>\<rparr>"

definition upload_raises :: submit_world where
  "upload_raises = good_world\<lparr>upload_reply := Raises (Exn HttpError ''quota exceeded'')\<rparr>"

definition upload_without_id :: submit_world where
  "upload_without_id =
     good_world\<lparr>upload_reply :=
       Reply \<lparr>f_id = None, f_name = Some ''Essay_1_submission.pdf'',
              f_webViewLink = None, f_webContentLink = None\<rparr>\<rparr>"



definition markup_fails :: submit_world where
  "markup_fails = good_world\<lparr>story_reply := Raises (Exn ValueError ''Parse error in paragraph'')\<rparr>"

section \<open>Natural keys\<close>

text \<open>
  The pair a course or an assignment is looked up by during reconciliation: the remote id
  together with the owning user, or with the course.
\<close>

definition course_key :: "course_row \<Rightarrow> string \<times> nat" where
  "course_key r = (c_google_course_id r, c_user_id r)"

definition assignment_key :: "assignment_row \<Rightarrow> string \<times> nat" where
  "assignment_key r = (a_google_assignment_id r, a_course_id r)"

section \<open>Auxiliary facts\<close>

subsection \<open>Lookup and write-back\<close>

lemma find_update_first_split:
  "find P xs = Some r \<Longrightarrow>
     \<exists>pre post. xs = pre @ r # post \<and> find P pre = None \<and> update_first P g xs = pre @ g r # post"
proof (induction xs)
  case Nil
  then show ?case by simp
next
  case (Cons x xs)
  show ?case
  proof (cases "P x")
    case True
    with Cons.prems have "x = r" by simp
    with True have "x # xs = [] @ r # xs \<and> find P [] = None \<and> update_first P g (x # xs) = [] @ g r # xs"
      by simp
    then show ?thesis by blast
  next
    case False
    with Cons.prems have "find P xs = Some r" by simp
    from Cons.IH[OF this] obtain pre post where
      h: "xs = pre @ r # post" "find P pre = None" "update_first P g xs = pre @ g r # post" by blast
    with False have "x # xs = (x # pre) @ r # post \<and> find P (x # pre) = None
        \<and> update_first P g (x # xs) = (x # pre) @ g r # post" by simp
    then show ?thesis by blast
  qed
qed

lemma find_Some_holds: "find P xs = Some r \<Longrightarrow> P r"
  by (induction xs) (auto split: if_splits)

lemma find_update_first_same:
  "find P xs = Some r \<Longrightarrow> P (g r) \<Longrightarrow> find P (update_first P g xs) = Some (g r)"
  by (induction xs) (auto split: if_splits)

subsection \<open>Dates\<close>

lemma datetime_new_raises:
  "datetime_new y m d h mi = Inl e \<Longrightarrow> exn_cls e = ValueError \<or> exn_cls e = OverflowError"
  by (auto simp: datetime_new_def overflow_error_def split: if_splits)

lemma datetime_new_in_range:
  assumes "c_int y" "c_int m" "c_int d" "c_int h" "c_int mi"
  shows "datetime_new y m d h mi =
     (if 1 \<le> y \<and> y \<le> 9999 \<and> 1 \<le> m \<and> m \<le> 12 \<and> 1 \<le> d \<and> d \<le> days_in_month y m
          \<and> 0 \<le> h \<and> h \<le> 23 \<and> 0 \<le> mi \<and> mi \<le> 59
      then Inr \<lparr>dt_year = y, dt_month = m, dt_day = d, dt_hour = h, dt_minute = mi\<rparr>
      else Inl (Exn ValueError
        (if \<not> (1 \<le> y \<and> y \<le> 9999) then ''year is out of range''
         else if \<not> (1 \<le> m \<and> m \<le> 12) then ''month must be in 1..12''
         else if \<not> (1 \<le> d \<and> d \<le> days_in_month y m) then ''day is out of range for month''
         else if \<not> (0 \<le> h \<and> h \<le> 23) then ''hour must be in 0..23''
         else ''minute must be in 0..59'')))"
  using assms by (simp add: datetime_new_def)

lemma days_in_month_le: "days_in_month y m \<le> 31"
  by (simp add: days_in_month_def)

lemma datetime_new_valid:
  assumes "1 \<le> y \<and> y \<le> 9999 \<and> 1 \<le> m \<and> m \<le> 12 \<and> 1 \<le> d \<and> d \<le> days_in_month y m
          \<and> 0 \<le> h \<and> h \<le> 23 \<and> 0 \<le> mi \<and> mi \<le> 59"
  shows "datetime_new y m d h mi =
           Inr \<lparr>dt_year = y, dt_month = m, dt_day = d, dt_hour = h, dt_minute = mi\<rparr>"
proof -
  have "d \<le> 31" using assms days_in_month_le[of y m] by linarith
  with assms have "c_int y" "c_int m" "c_int d" "c_int h" "c_int mi"
    by (simp_all add: c_int_def)
  from datetime_new_in_range[OF this] assms show ?thesis by simp
qed

lemma datetime_new_invalid:
  assumes "c_int y" "c_int m" "c_int d" "c_int h" "c_int mi"
    and "\<not> (1 \<le> y \<and> y \<le> 9999 \<and> 1 \<le> m \<and> m \<le> 12 \<and> 1 \<le> d \<and> d \<le> days_in_month y m
       \<and> 0 \<le> h \<and> h \<le> 23 \<and> 0 \<le> mi \<and> mi \<le> 59)"
  shows "\<exists>e. datetime_new y m d h mi = Inl e \<and> exn_cls e = ValueError"
  using datetime_new_in_range[OF assms(1-5)] assms(6) by auto

subsection \<open>Streams\<close>

lemma bytesio_write_at_end:
  "pos fh = length (buf fh) \<Longrightarrow>
     bytesio_write fh chunk = \<lparr>buf = buf fh @ chunk, pos = length (buf fh @ chunk)\<rparr>"
  by (simp add: bytesio_write_def)

lemma download_loop_result:
  "pos fh = length (buf fh) \<Longrightarrow>
     download_loop t fh =
       (case transfer_error t of
          Some e \<Rightarrow> Inl e
        | None \<Rightarrow> Inr \<lparr>buf = buf fh @ concat (chunks_of t),
                       pos = length (buf fh @ concat (chunks_of t))\<rparr>)"
proof (induction t arbitrary: fh)
  case (Chunk_raises e)
  show ?case by simp
next
  case (Chunk_done chunk)
  then show ?case by (simp add: bytesio_write_at_end)
next
  case (Chunk_more chunk t)
  have "pos (bytesio_write fh chunk) = length (buf (bytesio_write fh chunk))"
    using Chunk_more.prems by (simp add: bytesio_write_at_end)
  from Chunk_more.IH[OF this] show ?case
    using Chunk_more.prems by (simp add: bytesio_write_at_end split: option.splits)
qed

lemma download_loop_new:
  "download_loop t bytesio_new =
     (case transfer_error t of
        Some e \<Rightarrow> Inl e
      | None \<Rightarrow> Inr \<lparr>buf = concat (chunks_of t), pos = length (concat (chunks_of t))\<rparr>)"
  using download_loop_result[of bytesio_new t] by (simp add: bytesio_new_def split: option.splits)

subsection \<open>Tables that a step leaves alone\<close>

lemma materials_keep_assignments:
  "assignments (upsert_material s aid f) = assignments s"
  by (simp add: upsert_material_def Let_def split: option.splits)

lemma process_materials_assignments:
  "assignments (process_materials s drive ms aid) = assignments s"
  by (induction ms arbitrary: s) (simp_all add: materials_keep_assignments)

lemma sync_assignment_creates:
  assumes "cw_id g = Some gid" and "parse_due_date g = Inr due"
    and "find (\<lambda>r. a_google_assignment_id r = gid \<and> a_course_id r = c_id c) (assignments s) = None"
  shows "\<exists>s1. sync_assignment s drive c u g =
           Inr (s1,
                \<lparr>a_id = fresh_id (map a_id (assignments s)),
                 a_google_assignment_id = gid,
                 a_title = get_default (cw_title g) ''Untitled Assignment'',
                 a_description = Some (get_default (cw_description g) []),
                 a_due_date = due,
                 a_course_id = c_id c,
                 a_user_id = u_id u\<rparr>)
         \<and> assignments s1 = assignments s @
                [\<lparr>a_id = fresh_id (map a_id (assignments s)),
                  a_google_assignment_id = gid,
                  a_title = get_default (cw_title g) ''Untitled Assignment'',
                  a_description = Some (get_default (cw_description g) []),
                  a_due_date = due,
                  a_course_id = c_id c,
                  a_user_id = u_id u\<rparr>]"
  using assms
  by (simp add: sync_assignment_def Let_def process_materials_assignments split: option.splits)

lemma sync_assignment_updates:
  assumes "cw_id g = Some gid" and "parse_due_date g = Inr due"
    and "find (\<lambda>r. a_google_assignment_id r = gid \<and> a_course_id r = c_id c) (assignments s) = Some r"
  shows "\<exists>s1. sync_assignment s drive c u g =
           Inr (s1,
                r\<lparr>a_title := get_default (cw_title g) (a_title r),
                  a_description :=
                    (case cw_description g of Some d \<Rightarrow> Some d | None \<Rightarrow> a_description r),
                  a_due_date := (case due of Some d \<Rightarrow> Some d | None \<Rightarrow> a_due_date r)\<rparr>)
         \<and> assignments s1 =
             update_first (\<lambda>r. a_google_assignment_id r = gid \<and> a_course_id r = c_id c)
               (\<lambda>_. r\<lparr>a_title := get_default (cw_title g) (a_title r),
                        a_description :=
                          (case cw_description g of Some d \<Rightarrow> Some d | None \<Rightarrow> a_description r),
                        a_due_date := (case due of Some d \<Rightarrow> Some d | None \<Rightarrow> a_due_date r)\<rparr>)
               (assignments s)"
  using assms
  by (simp add: sync_assignment_def Let_def process_materials_assignments split: option.splits)

lemma sync_assignment_parse_raises:
  assumes "cw_id g = Some gid" and "parse_due_date g = Inl e"
  shows "sync_assignment s drive c u g = Inl e"
  using assms by (simp add: sync_assignment_def)




section \<open>Properties of the reconciliation engine\<close>

text \<open>
  C4. A coursework record with an id whose \<open>dueDate\<close>/\<open>dueTime\<close> components, each within
  the range of a C \<open>int\<close>, do not form a date (February 30, say) parses to a null due
  date; the turn of the loop returns normally and the loop goes on with the remaining
  records. When the assignment is new, the row appended to the table has a null due date;
  when it existed before, its row is replaced in place by one with the due date it
  already had. No other row of the table changes.
\<close>

theorem invalid_due_date_is_dropped:
  assumes "cw_id g = Some gid"
    and "cw_dueDate g = Some due_info" and "cw_dueTime g = Some time_info"
    and "y = get_default (dd_year due_info) 1970" and "m = get_default (dd_month due_info) 1"
    and "d = get_default (dd_day due_info) 1"
    and "h = get_default (tod_hours time_info) 0" and "mi = get_default (tod_minutes time_info) 0"
    and "c_int y" "c_int m" "c_int d" "c_int h" "c_int mi"
    and "\<not> (1 \<le> y \<and> y \<le> 9999 \<and> 1 \<le> m \<and> m \<le> 12 \<and> 1 \<le> d \<and> d \<le> days_in_month y m
          \<and> 0 \<le> h \<and> h \<le> 23 \<and> 0 \<le> mi \<and> mi \<le> 59)"
  shows "parse_due_date g = Inr None
     \<and> (\<exists>s1 row.
          sync_assignment s drive c u g = Inr (s1, row)
          \<and> (find (\<lambda>r. a_google_assignment_id r = gid \<and> a_course_id r = c_id c) (assignments s) = None
                \<longrightarrow> a_due_date row = None \<and> assignments s1 = assignments s @ [row])
          \<and> (find (\<lambda>r. a_google_assignment_id r = gid \<and> a_course_id r = c_id c) (assignments s) = Some r
                \<longrightarrow> a_due_date row = a_due_date r
                  \<and> (\<exists>pre post. assignments s = pre @ r # post \<and> assignments s1 = pre @ row # post))
          \<and> sync_assignments s drive c u (g # gs) =
              (case sync_assignments s1 drive c u gs of
                 (s2, Inl e) \<Rightarrow> (s2, Inl e)
               | (s2, Inr rows) \<Rightarrow> (s2, Inr (row # rows))))"
proof -
  let ?same = "\<lambda>r. a_google_assignment_id r = gid \<and> a_course_id r = c_id c"
  from datetime_new_invalid[OF assms(9-14)] obtain e where
    e: "datetime_new y m d h mi = Inl e" "exn_cls e = ValueError"
    by blast
  have p: "parse_due_date g = Inr None"
    using assms(2,3) e by (simp add: parse_due_date_def assms(4-8)[symmetric])
  have "\<exists>s1 row.
          sync_assignment s drive c u g = Inr (s1, row)
          \<and> (find ?same (assignments s) = None
                \<longrightarrow> a_due_date row = None \<and> assignments s1 = assignments s @ [row])
          \<and> (find ?same (assignments s) = Some r
                \<longrightarrow> a_due_date row = a_due_date r
                  \<and> (\<exists>pre post. assignments s = pre @ r # post \<and> assignments s1 = pre @ row # post))
          \<and> sync_assignments s drive c u (g # gs) =
              (case sync_assignments s1 drive c u gs of
                 (s2, Inl e) \<Rightarrow> (s2, Inl e)
               | (s2, Inr rows) \<Rightarrow> (s2, Inr (row # rows)))"
  proof (cases "find ?same (assignments s)")
    case None
    define row where "row =
       \<lparr>a_id = fresh_id (map a_id (assignments s)),
        a_google_assignment_id = gid,
        a_title = get_default (cw_title g) ''Untitled Assignment'',
        a_description = Some (get_default (cw_description g) []),
        a_due_date = (None :: datetime option),
        a_course_id = c_id c,
        a_user_id = u_id u\<rparr>"
    from sync_assignment_creates[OF assms(1) p None, of drive u] obtain s1 where
      st: "sync_assignment s drive c u g = Inr (s1, row)"
      and ap: "assignments s1 = assignments s @ [row]"
      unfolding row_def by blast
    have dd: "a_due_date row = None" by (simp add: row_def)
    have cont: "sync_assignments s drive c u (g # gs) =
              (case sync_assignments s1 drive c u gs of
                 (s2, Inl e) \<Rightarrow> (s2, Inl e)
               | (s2, Inr rows) \<Rightarrow> (s2, Inr (row # rows)))"
      using st by simp
    show ?thesis
      apply (rule exI[of _ s1])
      apply (rule exI[of _ row])
      using st ap dd cont None by simp
  next
    case (Some r0)
    define row where "row =
       r0\<lparr>a_title := get_default (cw_title g) (a_title r0),
          a_description :=
            (case cw_description g of Some d \<Rightarrow> Some d | None \<Rightarrow> a_description r0),
          a_due_date := (case (None :: datetime option) of Some d \<Rightarrow> Some d | None \<Rightarrow> a_due_date r0)\<rparr>"
    from sync_assignment_updates[OF assms(1) p Some, of drive u] obtain s1 where
      st: "sync_assignment s drive c u g = Inr (s1, row)"
      and up: "assignments s1 = update_first ?same (\<lambda>_. row) (assignments s)"
      unfolding row_def by blast
    from find_update_first_split[OF Some, of "\<lambda>_. row"] obtain pre post where
      sp: "assignments s = pre @ r0 # post"
          "update_first ?same (\<lambda>_. row) (assignments s) = pre @ row # post"
      by blast
    have dd: "a_due_date row = a_due_date r0" by (simp add: row_def)
    have ex: "\<exists>pre post. assignments s = pre @ r0 # post \<and> assignments s1 = pre @ row # post"
      apply (rule exI[of _ pre])
      apply (rule exI[of _ post])
      using sp up by simp
    have cont: "sync_assignments s drive c u (g # gs) =
              (case sync_assignments s1 drive c u gs of
                 (s2, Inl e) \<Rightarrow> (s2, Inl e)
               | (s2, Inr rows) \<Rightarrow> (s2, Inr (row # rows)))"
      using st by simp
    show ?thesis
      apply (rule exI[of _ s1])
      apply (rule exI[of _ row])
      using st dd ex cont Some by auto
  qed
  with p show ?thesis by (rule conjI)
qed

theorem invalid_due_date_is_dropped_witness:
  "cw_dueDate february_30 = Some \<lparr>dd_year = Some 2024, dd_month = Some 2, dd_day = Some 30\<rparr>
   \<and> c_int 2024 \<and> c_int 30
   \<and> \<not> (30 \<le> days_in_month 2024 2)
   \<and> parse_due_date february_30 = Inr None
   \<and> (\<exists>s1 row. sync_assignment empty_db example_drive example_course example_user february_30
                   = Inr (s1, row) \<and> a_due_date row = None \<and> assignments s1 = [row])
   \<and> (\<exists>s1 row. sync_assignment example_db example_drive example_course example_user february_30
                   = Inr (s1, row) \<and> a_due_date row = a_due_date example_assignment
                 \<and> assignments s1 = [row])"
proof -
  have d: "\<not> (30 \<le> days_in_month 2024 2)"
    by (simp add: days_in_month_def is_leap_def)
  have r: "c_int 2024" "c_int 2" "c_int 30" "c_int 12" "c_int 0"
    by (simp_all add: c_int_def)
  have h: "\<not> (1 \<le> (2024::int) \<and> (2024::int) \<le> 9999 \<and> 1 \<le> (2::int) \<and> (2::int) \<le> 12
          \<and> 1 \<le> (30::int) \<and> 30 \<le> days_in_month 2024 2
          \<and> 0 \<le> (12::int) \<and> (12::int) \<le> 23 \<and> 0 \<le> (0::int) \<and> (0::int) \<le> 59)"
    using d by simp
  have i: "cw_id february_30 = Some ''cw7''"
    and dd: "cw_dueDate february_30 = Some \<lparr>dd_year = Some 2024, dd_month = Some 2, dd_day = Some 30\<rparr>"
    and tt: "cw_dueTime february_30 = Some \<lparr>tod_hours = Some 12, tod_minutes = Some 0\<rparr>"
    by (simp_all add: february_30_def)
  have v: "2024 = get_default (dd_year \<lparr>dd_year = Some 2024, dd_month = Some 2, dd_day = Some 30\<rparr>) 1970"
    "2 = get_default (dd_month \<lparr>dd_year = Some 2024, dd_month = Some 2, dd_day = Some 30\<rparr>) 1"
    "30 = get_default (dd_day \<lparr>dd_year = Some 2024, dd_month = Some 2, dd_day = Some 30\<rparr>) 1"
    "12 = get_default (tod_hours \<lparr>tod_hours = Some 12, tod_minutes = Some 0\<rparr>) 0"
    "0 = get_default (tod_minutes \<lparr>tod_hours = Some 12, tod_minutes = Some 0\<rparr>) 0"
    by simp_all
  have f0: "find (\<lambda>r. a_google_assignment_id r = ''cw7'' \<and> a_course_id r = c_id example_course)
              (assignments empty_db) = None"
    by (simp add: empty_db_def)
  have f1: "find (\<lambda>r. a_google_assignment_id r = ''cw7'' \<and> a_course_id r = c_id example_course)
              (assignments example_db) = Some example_assignment"
    by (simp add: example_db_def example_assignment_def example_course_def)
  note t = invalid_due_date_is_dropped[OF i dd tt v r h]
  from t[of empty_db example_drive example_course example_user example_assignment "[]"] f0
  have a: "parse_due_date february_30 = Inr None
     \<and> (\<exists>s1 row. sync_assignment empty_db example_drive example_course example_user february_30
                   = Inr (s1, row) \<and> a_due_date row = None \<and> assignments s1 = [row])"
    by (auto simp: empty_db_def)
  from t[of example_db example_drive example_course example_user example_assignment "[]"] f1
  have b: "\<exists>s1 row. sync_assignment example_db example_drive example_course example_user february_30
                   = Inr (s1, row) \<and> a_due_date row = a_due_date example_assignment
                 \<and> assignments s1 = [row]"
    by (auto simp: example_db_def Cons_eq_append_conv)
  show ?thesis using a b d dd r by simp
qed

text \<open>
  C4, as the claim has it ("stores a null due date for that assignment"), fails on the
  update path: the stored assignment keeps its due date of 1 May 2024 when the remote
  record now says February 30.
\<close>

theorem stored_due_date_survives_invalid_date:
  "cw_dueDate february_30 = Some \<lparr>dd_year = Some 2024, dd_month = Some 2, dd_day = Some 30\<rparr>
   \<and> sync_assignment example_db example_drive example_course example_user february_30
       = Inr (example_db, example_assignment)
   \<and> a_due_date example_assignment
       = Some \<lparr>dt_year = 2024, dt_month = 5, dt_day = 1, dt_hour = 23, dt_minute = 59\<rparr>"
  by (simp add: sync_assignment_def Let_def parse_due_date_def datetime_new_def c_int_def
        days_in_month_def is_leap_def february_30_def example_db_def example_assignment_def
        example_course_def)

text \<open>
  C9. A due date is computed only when both \<open>dueDate\<close> and \<open>dueTime\<close> are present; with
  either one missing the parsed due date is null, as it is with both missing. Within a
  present pair each missing component takes its default (1970, 1, 1, 0, 0): the constructor
  is called on the defaulted components, a \<open>ValueError\<close> of it gives null and any other
  exception leaves the route; when the defaulted components form a date, that date is the
  due date.
\<close>

theorem due_date_needs_both_keys:
  "(cw_dueDate g = None \<or> cw_dueTime g = None \<longrightarrow> parse_due_date g = Inr None)
   \<and> (parse_due_date g = Inr (Some dt) \<longrightarrow> cw_dueDate g \<noteq> None \<and> cw_dueTime g \<noteq> None)
   \<and> (cw_dueDate g = Some due_info \<and> cw_dueTime g = Some time_info
        \<and> y = get_default (dd_year due_info) 1970 \<and> m = get_default (dd_month due_info) 1
        \<and> d = get_default (dd_day due_info) 1
        \<and> h = get_default (tod_hours time_info) 0 \<and> mi = get_default (tod_minutes time_info) 0 \<longrightarrow>
        parse_due_date g =
          (case datetime_new y m d h mi of
             Inr dt \<Rightarrow> Inr (Some dt)
           | Inl e \<Rightarrow> (if exn_cls e = ValueError then Inr None else Inl e))
      \<and> (1 \<le> y \<and> y \<le> 9999 \<and> 1 \<le> m \<and> m \<le> 12 \<and> 1 \<le> d \<and> d \<le> days_in_month y m
          \<and> 0 \<le> h \<and> h \<le> 23 \<and> 0 \<le> mi \<and> mi \<le> 59 \<longrightarrow>
          parse_due_date g =
            Inr (Some \<lparr>dt_year = y, dt_month = m, dt_day = d, dt_hour = h, dt_minute = mi\<rparr>)))
   \<and> (cw_dueDate g = Some \<lparr>dd_year = None, dd_month = None, dd_day = None\<rparr>
        \<and> cw_dueTime g = Some \<lparr>tod_hours = None, tod_minutes = None\<rparr> \<longrightarrow>
        parse_due_date g =
          Inr (Some \<lparr>dt_year = 1970, dt_month = 1, dt_day = 1, dt_hour = 0, dt_minute = 0\<rparr>))"
proof (intro conjI impI)
  assume "cw_dueDate g = None \<or> cw_dueTime g = None"
  then show "parse_due_date g = Inr None"
    by (auto simp: parse_due_date_def split: option.splits)
next
  assume "parse_due_date g = Inr (Some dt)"
  then show "cw_dueDate g \<noteq> None" "cw_dueTime g \<noteq> None"
    by (auto simp: parse_due_date_def split: option.splits)
next
  assume a: "cw_dueDate g = Some due_info \<and> cw_dueTime g = Some time_info
        \<and> y = get_default (dd_year due_info) 1970 \<and> m = get_default (dd_month due_info) 1
        \<and> d = get_default (dd_day due_info) 1
        \<and> h = get_default (tod_hours time_info) 0 \<and> mi = get_default (tod_minutes time_info) 0"
  then show c: "parse_due_date g =
          (case datetime_new y m d h mi of
             Inr dt \<Rightarrow> Inr (Some dt)
           | Inl e \<Rightarrow> (if exn_cls e = ValueError then Inr None else Inl e))"
    by (simp add: parse_due_date_def)
  assume "1 \<le> y \<and> y \<le> 9999 \<and> 1 \<le> m \<and> m \<le> 12 \<and> 1 \<le> d \<and> d \<le> days_in_month y m
          \<and> 0 \<le> h \<and> h \<le> 23 \<and> 0 \<le> mi \<and> mi \<le> 59"
  from datetime_new_valid[OF this] c
  show "parse_due_date g =
            Inr (Some \<lparr>dt_year = y, dt_month = m, dt_day = d, dt_hour = h, dt_minute = mi\<rparr>)"
    by simp
next
  assume "cw_dueDate g = Some \<lparr>dd_year = None, dd_month = None, dd_day = None\<rparr>
        \<and> cw_dueTime g = Some \<lparr>tod_hours = None, tod_minutes = None\<rparr>"
  then show "parse_due_date g =
          Inr (Some \<lparr>dt_year = 1970, dt_month = 1, dt_day = 1, dt_hour = 0, dt_minute = 0\<rparr>)"
    by (simp add: parse_due_date_def datetime_new_def c_int_def days_in_month_def)
qed

theorem due_date_needs_both_keys_witness:
  "cw_dueTime date_without_time = None
   \<and> parse_due_date date_without_time = Inr None
   \<and> parse_due_date
        (february_30\<lparr>cw_dueDate := Some \<lparr>dd_year = None, dd_month = None, dd_day = None\<rparr>,
                     cw_dueTime := Some \<lparr>tod_hours = None, tod_minutes = None\<rparr>\<rparr>) =
       Inr (Some \<lparr>dt_year = 1970, dt_month = 1, dt_day = 1, dt_hour = 0, dt_minute = 0\<rparr>)
   \<and> parse_due_date
        (february_30\<lparr>cw_dueDate := Some \<lparr>dd_year = Some 2024, dd_month = None, dd_day = Some 15\<rparr>,
                     cw_dueTime := Some \<lparr>tod_hours = Some 9, tod_minutes = None\<rparr>\<rparr>) =
       Inr (Some \<lparr>dt_year = 2024, dt_month = 1, dt_day = 15, dt_hour = 9, dt_minute = 0\<rparr>)
   \<and> parse_due_date year_too_large = Inl (Exn OverflowError ''signed integer is greater than maximum'')"
proof -
  have a: "cw_dueTime date_without_time = None \<and> parse_due_date date_without_time = Inr None"
    using due_date_needs_both_keys[of date_without_time]
    by (simp add: date_without_time_def)
  have b: "parse_due_date
        (february_30\<lparr>cw_dueDate := Some \<lparr>dd_year = None, dd_month = None, dd_day = None\<rparr>,
                     cw_dueTime := Some \<lparr>tod_hours = None, tod_minutes = None\<rparr>\<rparr>) =
       Inr (Some \<lparr>dt_year = 1970, dt_month = 1, dt_day = 1, dt_hour = 0, dt_minute = 0\<rparr>)"
    using due_date_needs_both_keys
      [of "february_30\<lparr>cw_dueDate := Some \<lparr>dd_year = None, dd_month = None, dd_day = None\<rparr>,
                        cw_dueTime := Some \<lparr>tod_hours = None, tod_minutes = None\<rparr>\<rparr>"]
    by simp
  have dm: "days_in_month 2024 1 = 31" by (simp add: days_in_month_def)
  have c: "parse_due_date
        (february_30\<lparr>cw_dueDate := Some \<lparr>dd_year = Some 2024, dd_month = None, dd_day = Some 15\<rparr>,
                     cw_dueTime := Some \<lparr>tod_hours = Some 9, tod_minutes = None\<rparr>\<rparr>) =
       Inr (Some \<lparr>dt_year = 2024, dt_month = 1, dt_day = 15, dt_hour = 9, dt_minute = 0\<rparr>)"
    using due_date_needs_both_keys
      [of "february_30\<lparr>cw_dueDate := Some \<lparr>dd_year = Some 2024, dd_month = None, dd_day = Some 15\<rparr>,
                        cw_dueTime := Some \<lparr>tod_hours = Some 9, tod_minutes = None\<rparr>\<rparr>"
          _ "\<lparr>dd_year = Some 2024, dd_month = None, dd_day = Some 15\<rparr>"
          "\<lparr>tod_hours = Some 9, tod_minutes = None\<rparr>" 2024 1 15 9 0] dm
    by (simp add: datetime_new_def c_int_def)
  have o: "datetime_new 2147483648 1 1 0 0 =
             Inl (Exn OverflowError ''signed integer is greater than maximum'')"
    by (simp add: datetime_new_def c_int_def overflow_error_def)
  have e: "parse_due_date year_too_large =
             Inl (Exn OverflowError ''signed integer is greater than maximum'')"
    using due_date_needs_both_keys
      [of year_too_large _ "\<lparr>dd_year = Some 2147483648, dd_month = Some 1, dd_day = Some 1\<rparr>"
          "\<lparr>tod_hours = Some 0, tod_minutes = Some 0\<rparr>" 2147483648 1 1 0 0] o
    by (simp add: year_too_large_def)
  show ?thesis using a b c e by simp
qed

text \<open>
  C10. On the update path, when the parsed due date is null, the stored row keeps its
  due date; title and description are refreshed from the remote record (keeping the
  stored value where the remote key is absent), and no other row changes.
\<close>

theorem update_keeps_due_date_when_parse_is_null:
  assumes "cw_id g = Some gid"
    and "find (\<lambda>r. a_google_assignment_id r = gid \<and> a_course_id r = c_id c) (assignments s) = Some r"
    and "parse_due_date g = Inr None"
  shows "\<exists>pre post s1 row.
           assignments s = pre @ r # post
         \<and> sync_assignment s drive c u g = Inr (s1, row)
         \<and> assignments s1 = pre @ row # post
         \<and> row = r\<lparr>a_title := get_default (cw_title g) (a_title r),
                    a_description :=
                      (case cw_description g of Some d \<Rightarrow> Some d | None \<Rightarrow> a_description r)\<rparr>
         \<and> a_due_date row = a_due_date r"
proof -
  let ?same = "\<lambda>r. a_google_assignment_id r = gid \<and> a_course_id r = c_id c"
  let ?row = "r\<lparr>a_title := get_default (cw_title g) (a_title r),
                 a_description :=
                   (case cw_description g of Some d \<Rightarrow> Some d | None \<Rightarrow> a_description r)\<rparr>"
  from find_update_first_split[OF assms(2), of "\<lambda>_. ?row"] obtain pre post where
    sp: "assignments s = pre @ r # post"
        "update_first ?same (\<lambda>_. ?row) (assignments s) = pre @ ?row # post"
    by blast
  have "\<exists>s1. sync_assignment s drive c u g = Inr (s1, ?row) \<and> assignments s1 = pre @ ?row # post"
    using assms sp(2)
    by (simp add: sync_assignment_def Let_def process_materials_assignments split: option.splits)
  with sp(1) show ?thesis by auto
qed

theorem update_keeps_due_date_when_parse_is_null_witness:
  "parse_due_date date_without_time = Inr None
   \<and> (\<exists>s1 row. sync_assignment example_db example_drive example_course example_user date_without_time
                   = Inr (s1, row)
               \<and> a_title row = ''Essay 1 (revised)''
               \<and> a_due_date row
                   = Some \<lparr>dt_year = 2024, dt_month = 5, dt_day = 1, dt_hour = 23, dt_minute = 59\<rparr>)"
proof -
  have i: "cw_id date_without_time = Some ''cw7''"
    by (simp add: date_without_time_def)
  have f: "find (\<lambda>r. a_google_assignment_id r = ''cw7'' \<and> a_course_id r = c_id example_course)
             (assignments example_db) = Some example_assignment"
    by (simp add: example_db_def example_assignment_def example_course_def)
  have p: "parse_due_date date_without_time = Inr None"
    by (simp add: parse_due_date_def date_without_time_def)
  from update_keeps_due_date_when_parse_is_null[OF i f p, of example_drive example_user]
  show ?thesis using p by (auto simp: example_assignment_def date_without_time_def)
qed

text \<open>
  C5. A material payload with none of the four variant keys normalizes to type
  \<open>unknown\<close>, title \<open>Untitled Material\<close>, and null url, content and remote id; processing
  it returns normally and stores a row with exactly these fields.
\<close>

theorem unknown_material_defaults:
  assumes "gm_driveFile material = None" and "gm_youtubeVideo material = None"
    and "gm_link material = None" and "gm_form material = None"
  shows "normalize_material drive material =
           \<lparr>mf_type = ''unknown'', mf_title = ''Untitled Material'', mf_url = None,
            mf_content = None, mf_google_material_id = None\<rparr>
       \<and> process_materials s drive [material] assignment_id =
           s\<lparr>materials := materials s @
               [\<lparr>m_id = fresh_id (map m_id (materials s)),
                 m_google_material_id = None,
                 m_title = ''Untitled Material'',
                 m_type = ''unknown'',
                 m_url = None,
                 m_content = None,
                 m_processed_content = None,
                 m_assignment_id = assignment_id\<rparr>]\<rparr>"
proof -
  have n: "normalize_material drive material =
           \<lparr>mf_type = ''unknown'', mf_title = ''Untitled Material'', mf_url = None,
            mf_content = None, mf_google_material_id = None\<rparr>"
    using assms by (simp add: normalize_material_def)
  have "find (row_matches (material_criteria None assignment_id None)) (materials s) = None"
    by (simp add: find_None_iff row_matches_def material_criteria_def)
  then show ?thesis
    using n by (simp add: upsert_material_def)
qed

theorem unknown_material_defaults_witness:
  "gm_driveFile no_variant = None \<and> gm_youtubeVideo no_variant = None
   \<and> gm_link no_variant = None \<and> gm_form no_variant = None
   \<and> normalize_material example_drive no_variant =
       \<lparr>mf_type = ''unknown'', mf_title = ''Untitled Material'', mf_url = None,
        mf_content = None, mf_google_material_id = None\<rparr>
   \<and> length (materials (process_materials example_db example_drive [no_variant] 1)) = 2"
proof -
  have h: "gm_driveFile no_variant = None" "gm_youtubeVideo no_variant = None"
    "gm_link no_variant = None" "gm_form no_variant = None"
    by (simp_all add: no_variant_def)
  note t = unknown_material_defaults[OF h, of example_drive example_db 1]
  from t have n: "normalize_material example_drive no_variant =
       \<lparr>mf_type = ''unknown'', mf_title = ''Untitled Material'', mf_url = None,
        mf_content = None, mf_google_material_id = None\<rparr>" by (rule conjunct1)
  from t have pm: "process_materials example_db example_drive [no_variant] 1 =
      example_db\<lparr>materials := materials example_db @
               [\<lparr>m_id = fresh_id (map m_id (materials example_db)),
                 m_google_material_id = None,
                 m_title = ''Untitled Material'',
                 m_type = ''unknown'',
                 m_url = None,
                 m_content = None,
                 m_processed_content = None,
                 m_assignment_id = 1\<rparr>]\<rparr>" by (rule conjunct2)
  have l: "length (materials (process_materials example_db example_drive [no_variant] 1)) = 2"
    by (subst pm) (simp add: example_db_def)
  show ?thesis using h n l by (simp only: simp_thms)
qed




section \<open>Properties of the Remote File Client\<close>

text \<open>
  C8. \<open>download_file\<close>: a native document type is exported as \<open>text/plain\<close>, a native
  spreadsheet type as \<open>text/csv\<close>; any other native type returns \<open>None\<close> after the
  metadata call alone; an exception of the metadata call or of any chunk returns \<open>None\<close>;
  a transfer that completes returns the stream with all chunks in order, positioned at 0.
\<close>

theorem download_file_outcomes:
  "(files_get drive file_id = Raises e \<longrightarrow> snd (download_file drive file_id) = None)
   \<and> (files_get drive file_id = Reply md \<and> fm_mimeType md = None \<longrightarrow>
        snd (download_file drive file_id) = None)
   \<and> (files_get drive file_id = Reply md \<and> fm_mimeType md = Some mime_type \<longrightarrow>
        (contains ''google-apps'' mime_type \<and> contains ''document'' mime_type \<longrightarrow>
           choose_request file_id mime_type = Some (Export_media file_id ''text/plain''))
      \<and> (contains ''google-apps'' mime_type \<and> \<not> contains ''document'' mime_type
            \<and> contains ''spreadsheet'' mime_type \<longrightarrow>
           choose_request file_id mime_type = Some (Export_media file_id ''text/csv''))
      \<and> (contains ''google-apps'' mime_type \<and> \<not> contains ''document'' mime_type
            \<and> \<not> contains ''spreadsheet'' mime_type \<longrightarrow>
           download_file drive file_id = ([Drive_files_get file_id], None))
      \<and> (choose_request file_id mime_type = Some request \<longrightarrow>
           fst (download_file drive file_id) = [Drive_files_get file_id, Drive_media request]
         \<and> (transfer_error (media_transfer drive request) = Some e' \<longrightarrow>
              snd (download_file drive file_id) = None)
         \<and> (transfer_error (media_transfer drive request) = None \<longrightarrow>
              snd (download_file drive file_id) =
                Some \<lparr>buf = concat (chunks_of (media_transfer drive request)), pos = 0\<rparr>)))"
proof (intro conjI impI)
  assume "files_get drive file_id = Raises e"
  then show "snd (download_file drive file_id) = None"
    by (simp add: download_file_def)
next
  assume "files_get drive file_id = Reply md \<and> fm_mimeType md = None"
  then show "snd (download_file drive file_id) = None"
    by (simp add: download_file_def)
next
  assume "contains ''google-apps'' mime_type \<and> contains ''document'' mime_type"
  then show "choose_request file_id mime_type = Some (Export_media file_id ''text/plain'')"
    by (simp add: choose_request_def)
next
  assume "contains ''google-apps'' mime_type \<and> \<not> contains ''document'' mime_type
            \<and> contains ''spreadsheet'' mime_type"
  then show "choose_request file_id mime_type = Some (Export_media file_id ''text/csv'')"
    by (simp add: choose_request_def)
next
  assume m: "files_get drive file_id = Reply md \<and> fm_mimeType md = Some mime_type"
    and "contains ''google-apps'' mime_type \<and> \<not> contains ''document'' mime_type
            \<and> \<not> contains ''spreadsheet'' mime_type"
  then have "choose_request file_id mime_type = None"
    by (simp add: choose_request_def)
  with m show "download_file drive file_id = ([Drive_files_get file_id], None)"
    by (simp add: download_file_def)
next
  assume m: "files_get drive file_id = Reply md \<and> fm_mimeType md = Some mime_type"
    and r: "choose_request file_id mime_type = Some request"
  show "fst (download_file drive file_id) = [Drive_files_get file_id, Drive_media request]"
    using m r by (simp add: download_file_def split: sum.splits)
  {
    assume "transfer_error (media_transfer drive request) = Some e'"
    then show "snd (download_file drive file_id) = None"
      using m r by (simp add: download_file_def download_loop_new)
  }
  {
    assume "transfer_error (media_transfer drive request) = None"
    then show "snd (download_file drive file_id) =
                Some \<lparr>buf = concat (chunks_of (media_transfer drive request)), pos = 0\<rparr>"
      using m r by (simp add: download_file_def download_loop_new bytesio_seek_def)
  }
qed

theorem download_file_outcomes_witness:
  "snd (download_file example_drive ''missing'') = None
   \<and> choose_request ''doc1'' ''application/vnd.google-apps.document''
       = Some (Export_media ''doc1'' ''text/plain'')
   \<and> choose_request ''sheet1'' ''application/vnd.google-apps.spreadsheet''
       = Some (Export_media ''sheet1'' ''text/csv'')
   \<and> download_file example_drive ''slides1'' = ([Drive_files_get ''slides1''], None)
   \<and> download_file example_drive ''pdf1'' =
       ([Drive_files_get ''pdf1'', Drive_media (Get_media ''pdf1'')], None)
   \<and> download_file example_drive ''doc1'' =
       ([Drive_files_get ''doc1'', Drive_media (Export_media ''doc1'' ''text/plain'')],
        Some \<lparr>buf = ''Read chapter 3'', pos = 0\<rparr>)"
proof -
  have ga: "contains ''google-apps'' ''application/vnd.google-apps.document''"
           "contains ''google-apps'' ''application/vnd.google-apps.spreadsheet''"
           "contains ''google-apps'' ''application/vnd.google-apps.presentation''"
           "\<not> contains ''google-apps'' ''application/pdf''"
    by simp_all
  have doc: "contains ''document'' ''application/vnd.google-apps.document''"
            "\<not> contains ''document'' ''application/vnd.google-apps.spreadsheet''"
            "\<not> contains ''document'' ''application/vnd.google-apps.presentation''"
    by simp_all
  have sheet: "contains ''spreadsheet'' ''application/vnd.google-apps.spreadsheet''"
              "\<not> contains ''spreadsheet'' ''application/vnd.google-apps.presentation''"
    by simp_all
  have pdf: "choose_request ''pdf1'' ''application/pdf'' = Some (Get_media ''pdf1'')"
    using ga by (simp add: choose_request_def)
  note t = download_file_outcomes
  have 1: "snd (download_file example_drive ''missing'') = None"
    using t[of example_drive "''missing''" "Exn HttpError ''File not found''"]
    by (simp add: example_drive_def)
  have 2: "choose_request ''doc1'' ''application/vnd.google-apps.document''
             = Some (Export_media ''doc1'' ''text/plain'')"
    and 6: "download_file example_drive ''doc1'' =
       ([Drive_files_get ''doc1'', Drive_media (Export_media ''doc1'' ''text/plain'')],
        Some \<lparr>buf = ''Read chapter 3'', pos = 0\<rparr>)"
    using t[of example_drive "''doc1''" _
          "\<lparr>fm_name = Some ''Notes'', fm_mimeType = Some ''application/vnd.google-apps.document''\<rparr>"
          "''application/vnd.google-apps.document''" "Export_media ''doc1'' ''text/plain''"]
      ga doc
    by (simp_all add: example_drive_def prod_eq_iff)
  have 3: "choose_request ''sheet1'' ''application/vnd.google-apps.spreadsheet''
             = Some (Export_media ''sheet1'' ''text/csv'')"
    using t[of example_drive "''sheet1''" _
          "\<lparr>fm_name = Some ''Grades'', fm_mimeType = Some ''application/vnd.google-apps.spreadsheet''\<rparr>"
          "''application/vnd.google-apps.spreadsheet''"]
      ga doc sheet
    by (simp add: example_drive_def)
  have 4: "download_file example_drive ''slides1'' = ([Drive_files_get ''slides1''], None)"
    using t[of example_drive "''slides1''" _
          "\<lparr>fm_name = Some ''Talk'', fm_mimeType = Some ''application/vnd.google-apps.presentation''\<rparr>"
          "''application/vnd.google-apps.presentation''"]
      ga doc sheet
    by (simp add: example_drive_def)
  have 5: "download_file example_drive ''pdf1'' =
       ([Drive_files_get ''pdf1'', Drive_media (Get_media ''pdf1'')], None)"
    using t[of example_drive "''pdf1''" _
          "\<lparr>fm_name = Some ''paper.pdf'', fm_mimeType = Some ''application/pdf''\<rparr>"
          "''application/pdf''" "Get_media ''pdf1''" "Exn HttpError ''Download failed''"]
      pdf
    by (simp add: example_drive_def prod_eq_iff)
  show ?thesis using 1 2 3 4 5 6 by (simp only: simp_thms)
qed

section \<open>Properties of the content generation task\<close>

text \<open>
  C7. When the generator raises, the targeted draft gets status \<open>error\<close> and the content
  \<open>Error generating content: \<close> followed by the text of the exception, whatever its status
  was before; looked up again, the draft has these values, so it does not stay
  \<open>generating\<close>.
\<close>

theorem generator_failure_sets_error:
  assumes "find (\<lambda>d. d_id d = draft_id) (drafts s) = Some draft"
  shows "\<exists>pre post.
           drafts s = pre @ draft # post
         \<and> drafts (generate_draft_content s (Raises e) draft_id) =
             pre @ draft\<lparr>d_content := ''Error generating content: '' @ str_exn e,
                         d_status := ''error''\<rparr> # post
         \<and> find (\<lambda>d. d_id d = draft_id) (drafts (generate_draft_content s (Raises e) draft_id)) =
             Some (draft\<lparr>d_content := ''Error generating content: '' @ str_exn e,
                         d_status := ''error''\<rparr>)"
proof -
  let ?P = "\<lambda>d. d_id d = draft_id"
  let ?g = "\<lambda>d. d\<lparr>d_content := ''Error generating content: '' @ str_exn e, d_status := ''error''\<rparr>"
  from find_update_first_split[OF assms, of ?g] obtain pre post where
    sp: "drafts s = pre @ draft # post" "update_first ?P ?g (drafts s) = pre @ ?g draft # post"
    by blast
  have "?P draft" using find_Some_holds[OF assms] .
  then have "?P (?g draft)" by simp
  from find_update_first_same[of ?P "drafts s" draft ?g, OF assms this]
  have f: "find ?P (update_first ?P ?g (drafts s)) = Some (?g draft)" .
  have d: "drafts (generate_draft_content s (Raises e) draft_id) = update_first ?P ?g (drafts s)"
    unfolding generate_draft_content_def store_error_def using assms by simp
  have d2: "drafts (generate_draft_content s (Raises e) draft_id) = pre @ ?g draft # post"
    using d sp(2) by (rule trans)
  have f2: "find ?P (drafts (generate_draft_content s (Raises e) draft_id)) = Some (?g draft)"
    using f by (simp only: d)
  show ?thesis
    apply (rule exI[of _ pre])
    apply (rule exI[of _ post])
    apply (intro conjI)
      apply (rule sp(1))
     apply (rule d2)
    apply (rule f2)
    done
qed

theorem generator_failure_sets_error_witness:
  "d_status generating_draft = ''generating''
   \<and> find (\<lambda>d. d_id d = 2)
       (drafts (generate_draft_content example_db (Raises (Exn OtherError ''model unavailable'')) 2))
     = Some (generating_draft\<lparr>d_content := ''Error generating content: model unavailable'',
                              d_status := ''error''\<rparr>)"
proof -
  have f: "find (\<lambda>d. d_id d = 2) (drafts example_db) = Some generating_draft"
    by (simp add: example_db_def example_draft_def generating_draft_def)
  from generator_failure_sets_error[OF f, of "Exn OtherError ''model unavailable''"]
  show ?thesis by (auto simp: generating_draft_def)
qed

section \<open>Properties of the submission orchestrator\<close>

subsection \<open>The steps of the \<open>try\<close> block\<close>

lemma generate_pdf_rendered:
  "rendered w \<Longrightarrow> generate_pdf w files = (insert (tmp_name w) files, Inr (tmp_name w))"
  by (simp add: generate_pdf_def rendered_def Let_def split: reply.splits)

lemma generate_pdf_not_rendered:
  "\<not> rendered w \<Longrightarrow> \<exists>files1 e. generate_pdf w files = (files1, Inl e)"
  by (auto simp: generate_pdf_def rendered_def os_remove_def Let_def split: reply.splits option.splits)

lemma create_submission_calls:
  "fst (create_submission w cid cwid fid) \<noteq> []"
  by (simp add: create_submission_def split: reply.splits)

lemma folder_calls_not_classroom:
  "filter is_classroom_call (fst (find_or_create_folder w name)) = []"
  by (simp add: find_or_create_folder_def split: reply.splits list.splits)

lemma upload_calls_not_classroom:
  "filter is_classroom_call (fst (upload_file w files p n folder)) = []"
  by (simp add: upload_file_def Let_def split: reply.splits)


lemma upload_fails_no_id:
  assumes "case upload_reply w of Raises e \<Rightarrow> True | Reply file \<Rightarrow> f_id file = None"
  shows "(case snd (upload_file w files p n folder) of None \<Rightarrow> None | Some file \<Rightarrow> f_id file) = None"
  using assms by (simp add: upload_file_def Let_def split: reply.splits)

lemma steps_upload_fails:
  assumes "case upload_reply w of Raises e \<Rightarrow> True | Reply file \<Rightarrow> f_id file = None"
  shows "\<exists>files1 p calls e.
           submission_steps s files w draft_id u a c = (s, files1, p, calls, Inl e)
         \<and> filter is_classroom_call calls = []"
proof (cases "rendered w")
  case False
  from generate_pdf_not_rendered[OF False, of files] obtain files1 e where
    "generate_pdf w files = (files1, Inl e)" by blast
  then show ?thesis
    by (simp add: submission_steps_def)
next
  case True
  note g = generate_pdf_rendered[OF True, of files]
  obtain calls1 folder_id where fo: "find_or_create_folder w ''OpenCoder Submissions'' = (calls1, folder_id)"
    by (cases "find_or_create_folder w ''OpenCoder Submissions''")
  obtain calls2 uploaded where up:
    "upload_file w (insert (tmp_name w) files) (tmp_name w) (pdf_filename (a_title a)) folder_id
       = (calls2, uploaded)"
    by (cases "upload_file w (insert (tmp_name w) files) (tmp_name w) (pdf_filename (a_title a)) folder_id")
  have c1: "filter is_classroom_call calls1 = []"
    using folder_calls_not_classroom[of w "''OpenCoder Submissions''"] fo by simp
  have c2: "filter is_classroom_call calls2 = []"
    using upload_calls_not_classroom[of w "insert (tmp_name w) files" "tmp_name w"
        "pdf_filename (a_title a)" folder_id] up by simp
  have noid: "(case uploaded of None \<Rightarrow> None | Some file \<Rightarrow> f_id file) = None"
    using upload_fails_no_id[OF assms, of "insert (tmp_name w) files" "tmp_name w"
        "pdf_filename (a_title a)" folder_id] up by simp
  show ?thesis
    using g fo up c1 c2 noid
    by (simp add: submission_steps_def)
qed







subsection \<open>The route\<close>

lemma submit_runs:
  assumes "find (\<lambda>d. d_id d = draft_id \<and> d_user_id d = u_id u) (drafts s) = Some draft"
    and "d_status draft \<noteq> ''submitted''"
    and "find (\<lambda>a. a_id a = d_assignment_id draft) (assignments s) = Some a"
    and "find (\<lambda>c. c_id c = a_course_id a) (courses s) = Some c"
    and "truthy (u_google_access_token u)"
    and "submission_steps s files w draft_id u a c = (s1, files1, p, calls, r)"
  shows "submit_draft_to_classroom s files w u draft_id =
           \<lparr>out_db = s1,
            out_files = cleanup w files1 p,
            out_calls = calls,
            out_result =
              (case r of
                 Inl e \<Rightarrow>
                   Inl (Exn (HTTPException 500)
                          (''An error occurred during submission: '' @ str_exn e))
               | Inr ok \<Rightarrow> Inr ok)\<rparr>"
  using assms by (simp add: submit_draft_to_classroom_def)

lemma submit_rejected:
  assumes "\<not> (\<exists>draft a c.
              find (\<lambda>d. d_id d = draft_id \<and> d_user_id d = u_id u) (drafts s) = Some draft
            \<and> d_status draft \<noteq> ''submitted''
            \<and> find (\<lambda>a. a_id a = d_assignment_id draft) (assignments s) = Some a
            \<and> find (\<lambda>c. c_id c = a_course_id a) (courses s) = Some c
            \<and> truthy (u_google_access_token u))"
  shows "\<exists>code detail. submit_draft_to_classroom s files w u draft_id = rejected s files code detail"
  using assms
  by (auto simp: submit_draft_to_classroom_def split: option.splits)

text \<open>
  C2. When the upload raises or answers with a descriptor that has no \<open>id\<close>, the route
  ends with an exception, none of the three Classroom calls (create student submission,
  modify attachments, turn in) is made, and the session is as it was before the call.
\<close>

theorem upload_failure_aborts_submission:
  assumes "case upload_reply w of Raises e \<Rightarrow> True | Reply uploaded \<Rightarrow> f_id uploaded = None"
  shows "out_db (submit_draft_to_classroom s files w u draft_id) = s
       \<and> (\<exists>e. out_result (submit_draft_to_classroom s files w u draft_id) = Inl e)
       \<and> filter is_classroom_call (out_calls (submit_draft_to_classroom s files w u draft_id)) = []"
proof (cases "\<exists>draft a c.
              find (\<lambda>d. d_id d = draft_id \<and> d_user_id d = u_id u) (drafts s) = Some draft
            \<and> d_status draft \<noteq> ''submitted''
            \<and> find (\<lambda>a. a_id a = d_assignment_id draft) (assignments s) = Some a
            \<and> find (\<lambda>c. c_id c = a_course_id a) (courses s) = Some c
            \<and> truthy (u_google_access_token u)")
  case False
  from submit_rejected[OF False, of files w] obtain code detail where
    "submit_draft_to_classroom s files w u draft_id = rejected s files code detail"
    by blast
  then show ?thesis by (simp add: rejected_def)
next
  case True
  then obtain draft a c where pre:
    "find (\<lambda>d. d_id d = draft_id \<and> d_user_id d = u_id u) (drafts s) = Some draft"
    "d_status draft \<noteq> ''submitted''"
    "find (\<lambda>a. a_id a = d_assignment_id draft) (assignments s) = Some a"
    "find (\<lambda>c. c_id c = a_course_id a) (courses s) = Some c"
    "truthy (u_google_access_token u)"
    by blast
  from steps_upload_fails[OF assms, of s files draft_id u a c] obtain files1 p calls e where
    st: "submission_steps s files w draft_id u a c = (s, files1, p, calls, Inl e)"
    and nc: "filter is_classroom_call calls = []"
    by blast
  from submit_runs[OF pre st] nc show ?thesis by simp
qed

theorem upload_failure_aborts_submission_witness:
  "out_db (submit_draft_to_classroom example_db {} upload_raises example_user 1) = example_db
   \<and> filter is_classroom_call
        (out_calls (submit_draft_to_classroom example_db {} upload_raises example_user 1)) = []
   \<and> out_db (submit_draft_to_classroom example_db {} upload_without_id example_user 1) = example_db
   \<and> filter is_classroom_call
        (out_calls (submit_draft_to_classroom example_db {} upload_without_id example_user 1)) = []
   \<and> out_calls (submit_draft_to_classroom example_db {} upload_without_id example_user 1)
       = [Drive_files_list (folder_query ''OpenCoder Submissions''),
          Drive_create_file ''Essay_1_submission.pdf'' (Some ''folder1'')]"
proof -
  have h1: "case upload_reply upload_raises of Raises e \<Rightarrow> True | Reply uploaded \<Rightarrow> f_id uploaded = None"
    by (simp add: upload_raises_def)
  have h2: "case upload_reply upload_without_id of Raises e \<Rightarrow> True | Reply uploaded \<Rightarrow> f_id uploaded = None"
    by (simp add: upload_without_id_def)
  have c: "out_calls (submit_draft_to_classroom example_db {} upload_without_id example_user 1)
       = [Drive_files_list (folder_query ''OpenCoder Submissions''),
          Drive_create_file ''Essay_1_submission.pdf'' (Some ''folder1'')]"
    by (simp add: submit_draft_to_classroom_def submission_steps_def generate_pdf_def
          find_or_create_folder_def upload_file_def pdf_filename_def Let_def
          upload_without_id_def good_world_def example_db_def example_draft_def
          generating_draft_def example_assignment_def example_course_def example_user_def)
  from upload_failure_aborts_submission[OF h1, of example_db "{}" example_user 1]
    upload_failure_aborts_submission[OF h2, of example_db "{}" example_user 1] c
  show ?thesis by (simp only: simp_thms)
qed




text \<open>
  The path the properties above leave aside: markup that \<open>Paragraph\<close> cannot parse ends
  the render before the guarded build. The route's \<open>pdf_path\<close> is still \<open>None\<close>, the
  \<open>finally\<close> block removes nothing, and the temporary file stays, although every removal
  would have succeeded. The draft is unchanged.
\<close>

lemma temporary_pdf_leaks_when_story_raises:
  "os_remove_error markup_fails = None
   \<and> ''/tmp/tmp1.pdf'' \<in> out_files (submit_draft_to_classroom example_db {} markup_fails example_user 1)
   \<and> out_db (submit_draft_to_classroom example_db {} markup_fails example_user 1) = example_db"
  by (simp add: submit_draft_to_classroom_def submission_steps_def generate_pdf_def
        cleanup_def Let_def markup_fails_def good_world_def example_db_def example_draft_def
        generating_draft_def example_assignment_def example_course_def example_user_def)

section \<open>Running a reconciliation twice\<close>

subsection \<open>Courses\<close>

lemma find_Some_in_set: "find P xs = Some r \<Longrightarrow> r \<in> set xs \<and> P r"
  by (induction xs) (auto split: if_splits)

lemma map_update_first_same_key:
  "(\<And>x. P x \<Longrightarrow> k (g x) = k x) \<Longrightarrow> map k (update_first P g xs) = map k xs"
  by (induction xs) auto

lemma sync_course_keys:
  assumes "gc_id g = Some gid"
  shows "\<exists>s' row. sync_course s u g = Inr (s', row)
           \<and> map course_key (courses s') =
               (if (gid, u_id u) \<in> set (map course_key (courses s))
                then map course_key (courses s)
                else map course_key (courses s) @ [(gid, u_id u)])"
proof (cases "find (\<lambda>r. c_google_course_id r = gid \<and> c_user_id r = u_id u) (courses s)")
  case None
  then have "(gid, u_id u) \<notin> set (map course_key (courses s))"
    by (auto simp: find_None_iff course_key_def)
  with None show ?thesis
    using assms by (simp add: sync_course_def Let_def course_key_def)
next
  case (Some r)
  from find_Some_in_set[OF Some] have r: "r \<in> set (courses s)"
    "c_google_course_id r = gid" "c_user_id r = u_id u" by simp_all
  then have m: "(gid, u_id u) \<in> set (map course_key (courses s))"
    by (force simp: course_key_def)
  have "map course_key
          (update_first (\<lambda>r. c_google_course_id r = gid \<and> c_user_id r = u_id u)
             (\<lambda>_. r\<lparr>c_name := get_default (gc_name g) (c_name r),
                      c_section := (case gc_section g of Some v \<Rightarrow> Some v | None \<Rightarrow> c_section r),
                      c_description :=
                        (case gc_description g of Some v \<Rightarrow> Some v | None \<Rightarrow> c_description r),
                      c_room := (case gc_room g of Some v \<Rightarrow> Some v | None \<Rightarrow> c_room r)\<rparr>)
             (courses s))
        = map course_key (courses s)"
    by (rule map_update_first_same_key) (simp add: course_key_def r)
  with Some m show ?thesis
    using assms by (simp add: sync_course_def Let_def)
qed

lemma sync_course_raises: "gc_id g = None \<Longrightarrow> sync_course s u g = Inl (key_error ''id'')"
  by (simp add: sync_course_def)

lemma sync_courses_covers:
  "sync_courses s u gs = (s1, Inr rows) \<Longrightarrow>
     set (map course_key (courses s)) \<subseteq> set (map course_key (courses s1))
     \<and> (\<forall>g \<in> set gs. \<exists>gid. gc_id g = Some gid
            \<and> (gid, u_id u) \<in> set (map course_key (courses s1)))"
proof (induction gs arbitrary: s rows)
  case Nil
  then show ?case by simp
next
  case (Cons g gs)
  show ?case
  proof (cases "gc_id g")
    case None
    with Cons.prems show ?thesis by (simp add: sync_course_raises)
  next
    case (Some gid)
    from sync_course_keys[OF Some, of s u] obtain s' row where
      st: "sync_course s u g = Inr (s', row)"
      and k: "map course_key (courses s') =
               (if (gid, u_id u) \<in> set (map course_key (courses s))
                then map course_key (courses s)
                else map course_key (courses s) @ [(gid, u_id u)])"
      by blast
    from Cons.prems st obtain rows' where
      rest: "sync_courses s' u gs = (s1, Inr rows')"
      by (auto split: prod.splits sum.splits)
    from Cons.IH[OF rest] have
      ih: "set (map course_key (courses s')) \<subseteq> set (map course_key (courses s1))"
          "\<forall>g \<in> set gs. \<exists>gid. gc_id g = Some gid
              \<and> (gid, u_id u) \<in> set (map course_key (courses s1))"
      by blast+
    from k have sub: "set (map course_key (courses s)) \<subseteq> set (map course_key (courses s'))"
      and here: "(gid, u_id u) \<in> set (map course_key (courses s'))"
      by (auto split: if_splits)
    from sub ih(1) have "set (map course_key (courses s)) \<subseteq> set (map course_key (courses s1))"
      by blast
    moreover from here ih(1) have "(gid, u_id u) \<in> set (map course_key (courses s1))"
      by blast
    ultimately show ?thesis using Some ih(2) by simp
  qed
qed

lemma sync_courses_known_keys:
  "\<forall>g \<in> set gs. \<exists>gid. gc_id g = Some gid \<and> (gid, u_id u) \<in> set (map course_key (courses s))
   \<Longrightarrow> \<exists>s' rows. sync_courses s u gs = (s', Inr rows)
          \<and> map course_key (courses s') = map course_key (courses s)"
proof (induction gs arbitrary: s)
  case Nil
  then show ?case by simp
next
  case (Cons g gs)
  from Cons.prems obtain gid where
    g: "gc_id g = Some gid" "(gid, u_id u) \<in> set (map course_key (courses s))"
    by auto
  from sync_course_keys[OF g(1), of s u] g(2) obtain s' row where
    st: "sync_course s u g = Inr (s', row)"
    and k: "map course_key (courses s') = map course_key (courses s)"
    by auto
  from Cons.prems k have
    "\<forall>g \<in> set gs. \<exists>gid. gc_id g = Some gid \<and> (gid, u_id u) \<in> set (map course_key (courses s'))"
    by simp
  from Cons.IH[OF this] obtain s'' rows where
    "sync_courses s' u gs = (s'', Inr rows)"
    "map course_key (courses s'') = map course_key (courses s')"
    by blast
  with st k show ?case by simp
qed

text \<open>
  A second run of course sync on the same remote list changes no key and adds no row, and
  a table with one row per key keeps that property.
\<close>

lemma sync_courses_second_run:
  assumes "sync_courses s u gs = (s1, Inr rows)"
  shows "\<exists>s2 rows'. sync_courses s1 u gs = (s2, Inr rows')
           \<and> map course_key (courses s2) = map course_key (courses s1)"
  using sync_courses_known_keys[of gs u s1] sync_courses_covers[OF assms] by blast

lemma sync_courses_distinct:
  "distinct (map course_key (courses s)) \<Longrightarrow> sync_courses s u gs = (s1, res)
     \<Longrightarrow> distinct (map course_key (courses s1))"
proof (induction gs arbitrary: s res)
  case Nil
  then show ?case by simp
next
  case (Cons g gs)
  show ?case
  proof (cases "gc_id g")
    case None
    with Cons.prems show ?thesis by (simp add: sync_course_raises)
  next
    case (Some gid)
    from sync_course_keys[OF Some, of s u] obtain s' row where
      st: "sync_course s u g = Inr (s', row)"
      and k: "map course_key (courses s') =
               (if (gid, u_id u) \<in> set (map course_key (courses s))
                then map course_key (courses s)
                else map course_key (courses s) @ [(gid, u_id u)])"
      by blast
    from k Cons.prems(1) have d: "distinct (map course_key (courses s'))"
      by (auto split: if_splits)
    from Cons.prems(2) st obtain res' where "sync_courses s' u gs = (s1, res')"
      by (auto split: prod.splits sum.splits)
    from Cons.IH[OF d this] show ?thesis .
  qed
qed

subsection \<open>Assignments\<close>

lemma sync_assignment_keys:
  assumes "cw_id g = Some gid" and p: "parse_due_date g = Inr due"
  shows "\<exists>s' row. sync_assignment s drive c u g = Inr (s', row)
           \<and> map assignment_key (assignments s') =
               (if (gid, c_id c) \<in> set (map assignment_key (assignments s))
                then map assignment_key (assignments s)
                else map assignment_key (assignments s) @ [(gid, c_id c)])"
proof (cases "find (\<lambda>r. a_google_assignment_id r = gid \<and> a_course_id r = c_id c) (assignments s)")
  case None
  then have "(gid, c_id c) \<notin> set (map assignment_key (assignments s))"
    by (auto simp: find_None_iff assignment_key_def)
  with None show ?thesis
    using assms
    by (simp add: sync_assignment_def Let_def assignment_key_def process_materials_assignments
          split: option.splits)
next
  case (Some r)
  from find_Some_in_set[OF Some] have r: "r \<in> set (assignments s)"
    "a_google_assignment_id r = gid" "a_course_id r = c_id c" by simp_all
  then have m: "(gid, c_id c) \<in> set (map assignment_key (assignments s))"
    by (force simp: assignment_key_def)
  have "map assignment_key
          (update_first (\<lambda>r. a_google_assignment_id r = gid \<and> a_course_id r = c_id c)
             (\<lambda>_. r\<lparr>a_title := get_default (cw_title g) (a_title r),
                      a_description :=
                        (case cw_description g of Some d \<Rightarrow> Some d | None \<Rightarrow> a_description r),
                      a_due_date := (case due of Some d \<Rightarrow> Some d | None \<Rightarrow> a_due_date r)\<rparr>)
             (assignments s))
        = map assignment_key (assignments s)"
    by (rule map_update_first_same_key) (simp add: assignment_key_def r)
  with Some m show ?thesis
    using assms
    by (simp add: sync_assignment_def Let_def process_materials_assignments split: option.splits)
qed

lemma sync_assignment_raises:
  "cw_id g = None \<Longrightarrow> sync_assignment s drive c u g = Inl (key_error ''id'')"
  by (simp add: sync_assignment_def)

lemma sync_assignments_covers:
  "sync_assignments s drive c u gs = (s1, Inr rows) \<Longrightarrow>
     set (map assignment_key (assignments s)) \<subseteq> set (map assignment_key (assignments s1))
     \<and> (\<forall>g \<in> set gs. \<exists>gid due. cw_id g = Some gid \<and> parse_due_date g = Inr due
            \<and> (gid, c_id c) \<in> set (map assignment_key (assignments s1)))"
proof (induction gs arbitrary: s rows)
  case Nil
  then show ?case by simp
next
  case (Cons g gs)
  show ?case
  proof (cases "cw_id g")
    case None
    with Cons.prems show ?thesis by (simp add: sync_assignment_raises)
  next
    case (Some gid)
    show ?thesis
    proof (cases "parse_due_date g")
      case (Inl e)
      with Cons.prems Some show ?thesis by (simp add: sync_assignment_parse_raises)
    next
      case (Inr due)
      from sync_assignment_keys[OF Some Inr, of s drive c u] obtain s' row where
        st: "sync_assignment s drive c u g = Inr (s', row)"
        and k: "map assignment_key (assignments s') =
                 (if (gid, c_id c) \<in> set (map assignment_key (assignments s))
                  then map assignment_key (assignments s)
                  else map assignment_key (assignments s) @ [(gid, c_id c)])"
        by blast
      from Cons.prems st obtain rows' where
        rest: "sync_assignments s' drive c u gs = (s1, Inr rows')"
        by (auto split: prod.splits sum.splits)
      from Cons.IH[OF rest] have
        ih: "set (map assignment_key (assignments s')) \<subseteq> set (map assignment_key (assignments s1))"
            "\<forall>g \<in> set gs. \<exists>gid due. cw_id g = Some gid \<and> parse_due_date g = Inr due
                \<and> (gid, c_id c) \<in> set (map assignment_key (assignments s1))"
        by blast+
      from k have sub: "set (map assignment_key (assignments s)) \<subseteq> set (map assignment_key (assignments s'))"
        and here: "(gid, c_id c) \<in> set (map assignment_key (assignments s'))"
        by (auto split: if_splits)
      from sub ih(1) have
        "set (map assignment_key (assignments s)) \<subseteq> set (map assignment_key (assignments s1))"
        by blast
      moreover from here ih(1) have "(gid, c_id c) \<in> set (map assignment_key (assignments s1))"
        by blast
      ultimately show ?thesis using Some Inr ih(2) by simp
    qed
  qed
qed

lemma sync_assignments_known_keys:
  "\<forall>g \<in> set gs. \<exists>gid due. cw_id g = Some gid \<and> parse_due_date g = Inr due
       \<and> (gid, c_id c) \<in> set (map assignment_key (assignments s))
   \<Longrightarrow> \<exists>s' rows. sync_assignments s drive c u gs = (s', Inr rows)
          \<and> map assignment_key (assignments s') = map assignment_key (assignments s)"
proof (induction gs arbitrary: s)
  case Nil
  then show ?case by simp
next
  case (Cons g gs)
  from Cons.prems obtain gid due where
    g: "cw_id g = Some gid" "parse_due_date g = Inr due"
       "(gid, c_id c) \<in> set (map assignment_key (assignments s))"
    by auto
  from sync_assignment_keys[OF g(1,2), of s drive c u] g(3) obtain s' row where
    st: "sync_assignment s drive c u g = Inr (s', row)"
    and k: "map assignment_key (assignments s') = map assignment_key (assignments s)"
    by auto
  from Cons.prems k have
    "\<forall>g \<in> set gs. \<exists>gid due. cw_id g = Some gid \<and> parse_due_date g = Inr due
        \<and> (gid, c_id c) \<in> set (map assignment_key (assignments s'))"
    by simp
  from Cons.IH[OF this] obtain s'' rows where
    "sync_assignments s' drive c u gs = (s'', Inr rows)"
    "map assignment_key (assignments s'') = map assignment_key (assignments s')"
    by blast
  with st k show ?case by simp
qed

text \<open>The same for assignment sync, whatever the materials of the records do.\<close>

lemma sync_assignments_second_run:
  assumes "sync_assignments s drive c u gs = (s1, Inr rows)"
  shows "\<exists>s2 rows'. sync_assignments s1 drive c u gs = (s2, Inr rows')
           \<and> map assignment_key (assignments s2) = map assignment_key (assignments s1)"
  using sync_assignments_known_keys[of gs c s1 drive u] sync_assignments_covers[OF assms] by blast

lemma sync_assignments_distinct:
  "distinct (map assignment_key (assignments s)) \<Longrightarrow> sync_assignments s drive c u gs = (s1, res)
     \<Longrightarrow> distinct (map assignment_key (assignments s1))"
proof (induction gs arbitrary: s res)
  case Nil
  then show ?case by simp
next
  case (Cons g gs)
  show ?case
  proof (cases "cw_id g")
    case None
    with Cons.prems show ?thesis by (simp add: sync_assignment_raises)
  next
    case (Some gid)
    show ?thesis
    proof (cases "parse_due_date g")
      case (Inl e)
      with Cons.prems Some show ?thesis by (simp add: sync_assignment_parse_raises)
    next
      case (Inr due)
      from sync_assignment_keys[OF Some Inr, of s drive c u] obtain s' row where
        st: "sync_assignment s drive c u g = Inr (s', row)"
        and k: "map assignment_key (assignments s') =
                 (if (gid, c_id c) \<in> set (map assignment_key (assignments s))
                  then map assignment_key (assignments s)
                  else map assignment_key (assignments s) @ [(gid, c_id c)])"
        by blast
      from k Cons.prems(1) have d: "distinct (map assignment_key (assignments s'))"
        by (auto split: if_splits)
      from Cons.prems(2) st obtain res' where "sync_assignments s' drive c u gs = (s1, res')"
        by (auto split: prod.splits sum.splits)
      from Cons.IH[OF d this] show ?thesis .
    qed
  qed
qed

subsection \<open>Materials\<close>

text \<open>
  C3. Material sync is not idempotent: a material that lacks the remote id or the url is
  never found again by the lookup, so every run inserts it anew. Here a link material
  (it has a url and, as every link, no remote id) is synced twice into an empty table,
  and the second run adds a second row with the same url and assignment.
\<close>

theorem link_material_duplicated_by_second_sync:
  "materials (process_materials empty_db example_drive [link_only] 1) =
     [\<lparr>m_id = 1, m_google_material_id = None, m_title = ''Syllabus'', m_type = ''link'',
       m_url = Some ''https://example.org/syllabus'', m_content = None,
       m_processed_content = None, m_assignment_id = 1\<rparr>]
   \<and> materials (process_materials (process_materials empty_db example_drive [link_only] 1)
        example_drive [link_only] 1) =
     [\<lparr>m_id = 1, m_google_material_id = None, m_title = ''Syllabus'', m_type = ''link'',
       m_url = Some ''https://example.org/syllabus'', m_content = None,
       m_processed_content = None, m_assignment_id = 1\<rparr>,
      \<lparr>m_id = 2, m_google_material_id = None, m_title = ''Syllabus'', m_type = ''link'',
       m_url = Some ''https://example.org/syllabus'', m_content = None,
       m_processed_content = None, m_assignment_id = 1\<rparr>]"
  by (simp add: upsert_material_def normalize_material_def material_criteria_def row_matches_def
        fresh_id_def Let_def link_only_def empty_db_def)

end
